theory Spec2Isabelle
  imports Complex_Main "HOL-Library.AList" "HOL-Library.Sublist"
begin

section \<open>Astronomy-Explorer: a shallow embedding of server.py\<close>

text \<open>
  The tools of server.py build an ADQL query string, submit it to a remote TAP service and
  package the rows as a JSON envelope. The embedding keeps that structure:
  \<^item> a Python \<open>str\<close> is a \<^typ>\<open>string\<close>; a character is its code point, so the
    accented letters of the Spanish messages are written \<open>CHR 0xED\<close> and so on (code points
    above 255 are outside the model);
  \<^item> a Python \<open>int\<close> is an \<^typ>\<open>int\<close>; a Python \<open>float\<close> is a \<^typ>\<open>real\<close>
    and the tools compute exactly (overflow and infinities of binary64 are outside the model;
    the rounding of the escape-velocity formula is modelled apart, in \<open>fl\<close>), and a
    missing cell (\<open>None\<close> or \<open>NaN\<close>, the values \<open>pd.isna\<close> accepts) is \<open>Missing\<close>,
    serialised as \<open>JNull\<close>;
  \<^item> the dict handed to \<open>json.dumps\<close> is a \<open>jval\<close>; an object keeps its keys in
    insertion order, as a Python dict does;
  \<^item> the remote service is a parameter \<open>svc\<close> from the query to its outcome, and every
    tool returns its envelope together with the list of queries it submitted;
  \<^item> every raise of the source is a value \<open>Inl e\<close> of \<open>py_exc + 'a\<close>.
\<close>

subsection \<open>JSON values, rows and exceptions\<close>

datatype jval =
    JNull
  | JInt int
  | JNum real
  | JStr string
  | JArr "jval list"
  | JObj "(string \<times> jval) list"

text \<open>
  A cell of the fetched table: missing, an integer, a float or a string. A row is the dict
  from column name to cell that \<open>to_dict()\<close> and \<open>to_json(orient="records")\<close> give.
\<close>

datatype cell = Missing | CInt int | CFloat real | CStr string

type_synonym row = "(string \<times> cell) list"

text \<open>
  A cell inside a dict that goes to \<open>json.dumps\<close>, as in the two tools that package one row
  themselves: the value as it is. (For a missing cell that is NaN the code writes the token
  \<open>NaN\<close>, for one that is \<open>None\<close> it writes \<open>null\<close>; both are \<open>JNull\<close> here.)
\<close>

fun cell_json :: "cell \<Rightarrow> jval" where
  "cell_json Missing = JNull"
| "cell_json (CInt i) = JInt i"
| "cell_json (CFloat x) = JNum x"
| "cell_json (CStr s) = JStr s"

definition row_json :: "row \<Rightarrow> jval" where
  "row_json r = JObj (map (\<lambda>(k, v). (k, cell_json v)) r)"

datatype py_exc =
    ValueError string
  | KeyError string
  | TypeError string
  | ZeroDivisionError string
  | DALServiceError string
  | OtherException string

text \<open>\<open>str(e)\<close>: the message of the exception; a \<open>KeyError\<close> prints the repr of its key.\<close>

fun str_exc :: "py_exc \<Rightarrow> string" where
  "str_exc (ValueError m) = m"
| "str_exc (KeyError k) = [CHR 0x27] @ k @ [CHR 0x27]"
| "str_exc (TypeError m) = m"
| "str_exc (ZeroDivisionError m) = m"
| "str_exc (DALServiceError m) = m"
| "str_exc (OtherException m) = m"

text \<open>What \<open>service.search(query)\<close> followed by \<open>to_table().to_pandas()\<close> gives.\<close>

datatype tap_outcome = Rows "row list" | Raises py_exc

type_synonym tap_service = "string \<Rightarrow> tap_outcome"

text \<open>Reading a field of an envelope.\<close>

fun jfield :: "string \<Rightarrow> jval \<Rightarrow> jval option" where
  "jfield k (JObj kvs) = map_of kvs k"
| "jfield k _ = None"

text \<open>The first element of the data list of an envelope.\<close>

fun primer_dato :: "jval \<Rightarrow> jval option" where
  "primer_dato (JObj kvs) =
     (case map_of kvs ''data'' of Some (JArr (d # _)) \<Rightarrow> Some d | _ \<Rightarrow> None)"
| "primer_dato _ = None"

subsection \<open>Strings\<close>

definition quote :: char where
  "quote = CHR 0x27"

definition nl :: char where
  "nl = CHR 0x0A"

text \<open>\<open>sep.join(xs)\<close>.\<close>

fun join :: "string \<Rightarrow> string list \<Rightarrow> string" where
  "join sep [] = []"
| "join sep [x] = x"
| "join sep (x # y # ys) = x @ sep @ join sep (y # ys)"

text \<open>\<open>sub in s\<close> for strings.\<close>

fun contains :: "string \<Rightarrow> string \<Rightarrow> bool" where
  "contains sub [] = (sub = [])"
| "contains sub (c # cs) = (prefix sub (c # cs) \<or> contains sub cs)"

text \<open>\<open>str(n)\<close> for an integer: decimal digits, a minus sign when negative.\<close>

definition digit :: "nat \<Rightarrow> char" where
  "digit d = ''0123456789'' ! d"

function str_nat :: "nat \<Rightarrow> string" where
  "str_nat n = (if n < 10 then [digit n] else str_nat (n div 10) @ [digit (n mod 10)])"
  by pat_completeness auto
termination
  by (relation "measure id") auto

declare str_nat.simps [simp del]

definition str_int :: "int \<Rightarrow> string" where
  "str_int i = (if i < 0 then CHR ''-'' # str_nat (nat (- i)) else str_nat (nat i))"

text \<open>
  \<open>s.replace(old, new)\<close>: the non-overlapping occurrences of \<open>old\<close> are replaced from left
  to right; an empty \<open>old\<close> matches before every character and at the end.
\<close>

function replace :: "string \<Rightarrow> string \<Rightarrow> string \<Rightarrow> string" where
  "replace old new s =
     (if old = [] then
        (case s of [] \<Rightarrow> new | c # cs \<Rightarrow> new @ c # replace old new cs)
      else if prefix old s then new @ replace old new (drop (length old) s)
      else (case s of [] \<Rightarrow> [] | c # cs \<Rightarrow> c # replace old new cs))"
  by pat_completeness auto
termination
  by (relation "measure (\<lambda>(old, new, s). length s)") (auto simp: prefix_def)

declare replace.simps [simp del]

text \<open>
  \<open>s.strip()\<close> removes leading and trailing whitespace; the whitespace characters of
  Python below code point 256.
\<close>

definition isspace :: "char \<Rightarrow> bool" where
  "isspace c = (of_char c \<in> set [9, 10, 11, 12, 13, 28, 29, 30, 31, 32, 133, 160 :: nat])"

definition strip :: "string \<Rightarrow> string" where
  "strip s = rev (dropWhile isspace (rev (dropWhile isspace s)))"

subsection \<open>Rounding of decimals, and the rows as \<open>to_json\<close> writes them\<close>

text \<open>\<open>round(x, 2)\<close>: the nearest multiple of 0.01, a tie going to the even one.\<close>

definition round_half_even :: "real \<Rightarrow> int" where
  "round_half_even y =
     (let f = \<lfloor>y\<rfloor>; d = y - of_int f
      in if d < 1 / 2 then f else if d > 1 / 2 then f + 1 else if even f then f else f + 1)"

definition round2 :: "real \<Rightarrow> real" where
  "round2 x = of_int (round_half_even (x * 100)) / 100"

text \<open>
  \<open>json.loads(df.to_json(orient="records"))\<close>, as \<open>ejecutar_query_segura\<close> returns the
  rows. pandas writes a float with its default \<open>double_precision=10\<close>: rounded to 10 decimal
  places, so the cell does not come back as it was. That is what \<open>to_json_double\<close> computes;
  it stands for magnitudes up to \<open>10 ^ 15\<close> (beyond \<open>10 ^ 16\<close> pandas writes ten significant
  digits instead). Integers and strings are written as they are, a missing cell as null, and
  every row becomes an object with the column names of the table, which are distinct.
\<close>

definition to_json_double :: "real \<Rightarrow> real" where
  "to_json_double x = of_int (round_half_even (x * 10 ^ 10)) / 10 ^ 10"

fun to_json_cell :: "cell \<Rightarrow> jval" where
  "to_json_cell Missing = JNull"
| "to_json_cell (CInt i) = JInt i"
| "to_json_cell (CFloat x) = JNum (to_json_double x)"
| "to_json_cell (CStr s) = JStr s"

definition to_json_records :: "row list \<Rightarrow> jval list" where
  "to_json_records df = map (\<lambda>r. JObj (map (\<lambda>(k, v). (k, to_json_cell v)) r)) df"

subsection \<open>Validation and the generic query runner\<close>

text \<open>\<open>validar_numero_positivo\<close>: returns nothing, or raises \<open>ValueError\<close>.\<close>

definition validar_numero_positivo :: "int \<Rightarrow> string \<Rightarrow> int \<Rightarrow> py_exc + unit" where
  "validar_numero_positivo valor nombre_parametro maximo =
     (if valor \<le> 0 then
        Inl (ValueError (nombre_parametro @ '' debe ser mayor a 0, recibido: '' @ str_int valor))
      else if valor > maximo then
        Inl (ValueError (nombre_parametro @ '' no puede exceder '' @ str_int maximo
                         @ '', recibido: '' @ str_int valor))
      else Inr ())"

text \<open>
  \<open>ejecutar_query_segura\<close>: one submission, then the empty, success or error envelope.
  The second component is the list of queries sent to the service.
\<close>

definition ejecutar_query_segura :: "tap_service \<Rightarrow> string \<Rightarrow> string \<Rightarrow> jval \<times> string list" where
  "ejecutar_query_segura svc query descripcion =
     (case svc query of
        Rows df \<Rightarrow>
          (if df = [] then
             JObj [(''status'', JStr ''empty''),
                   (''message'', JStr (''No se encontraron resultados para '' @ descripcion)),
                   (''data'', JArr [])]
           else
             JObj [(''status'', JStr ''success''),
                   (''count'', JInt (int (length df))),
                   (''data'', JArr (to_json_records df))])
      | Raises (DALServiceError m) \<Rightarrow>
          JObj [(''status'', JStr ''error''),
                (''error_type'', JStr ''service_error''),
                (''message'', JStr (''Error en el servicio TAP: '' @ m))]
      | Raises e \<Rightarrow>
          JObj [(''status'', JStr ''error''),
                (''error_type'', JStr ''unknown''),
                (''message'', JStr (''Error inesperado: '' @ str_exc e))],
      [query])"

subsection \<open>The query texts\<close>

text \<open>
  Each f-string of the source, line by line; the text between the triple quotes starts with a
  newline and ends with the indentation of the closing quotes.
\<close>

text \<open>The query of \<open>buscar_datos_exoplaneta\<close>.\<close>

definition buscar_datos_exoplaneta_query :: "string \<Rightarrow> string" where
  "buscar_datos_exoplaneta_query nombre_escapado =
     join [nl]
       [[],
        ''    SELECT '',
        ''        pl_name, pl_masse, pl_rade, pl_orbper, pl_orbsmax, pl_eqt,'',
        ''        discoverymethod, disc_year, disc_refname, disc_pubdate, '',
        ''        disc_locale, disc_facility, disc_telescope, disc_instrument,'',
        ''        sy_dist'',
        ''    FROM pscomppars '',
        ''    WHERE pl_name = '' @ [quote] @ nombre_escapado @ [quote],
        ''    '']"

text \<open>The query of \<open>listar_exoplanetas_mas_masivos\<close>.\<close>

definition listar_exoplanetas_mas_masivos_query :: "int \<Rightarrow> string" where
  "listar_exoplanetas_mas_masivos_query numero_planetas =
     join [nl]
       [[],
        ''    SELECT'',
        ''        pl_name,'',
        ''        pl_masse,'',
        ''        pl_orbper,'',
        ''        disc_locale,'',
        ''        disc_year'',
        ''    FROM ('',
        ''        SELECT'',
        ''            pl_name,'',
        ''            pl_masse,'',
        ''            pl_orbper,'',
        ''            disc_locale,'',
        ''            disc_year'',
        ''        FROM pscomppars'',
        ''        WHERE pl_masse IS NOT NULL'',
        ''        ORDER BY pl_masse DESC'',
        ''    )'',
        ''    WHERE ROWNUM <= '' @ str_int numero_planetas,
        ''    '']"

text \<open>The query of \<open>buscar_planetas_habitables\<close>.\<close>

definition buscar_planetas_habitables_query :: "int \<Rightarrow> string" where
  "buscar_planetas_habitables_query numero_planetas =
     join [nl]
       [[],
        ''    SELECT'',
        ''        pl_name,'',
        ''        pl_masse,'',
        ''        pl_rade,'',
        ''        pl_orbper,'',
        ''        pl_eqt,'',
        ''        sy_dist,'',
        ''        disc_year'',
        ''    FROM ('',
        ''        SELECT'',
        ''            pl_name,'',
        ''            pl_masse,'',
        ''            pl_rade,'',
        ''            pl_orbper,'',
        ''            pl_eqt,'',
        ''            sy_dist,'',
        ''            disc_year'',
        ''        FROM pscomppars'',
        ''        WHERE pl_masse IS NOT NULL'',
        ''        AND pl_orbper IS NOT NULL'',
        ''        AND pl_eqt IS NOT NULL'',
        ''        AND pl_masse > 0.5'',
        ''        AND pl_masse < 10.0'',
        ''        AND pl_orbper > 200.0'',
        ''        AND pl_orbper < 500.0'',
        ''        AND pl_eqt > 200'',
        ''        AND pl_eqt < 320'',
        ''        ORDER BY ABS(pl_masse - 1.0) ASC'',
        ''    )'',
        ''    WHERE ROWNUM <= '' @ str_int numero_planetas,
        ''    '']"

text \<open>The query of \<open>buscar_por_metodo_descubrimiento\<close>.\<close>

definition buscar_por_metodo_descubrimiento_query :: "string \<Rightarrow> int \<Rightarrow> string" where
  "buscar_por_metodo_descubrimiento_query metodo_escapado limite =
     join [nl]
       [[],
        ''    SELECT'',
        ''        pl_name,'',
        ''        pl_masse,'',
        ''        pl_rade,'',
        ''        pl_orbper,'',
        ''        discoverymethod,'',
        ''        disc_year,'',
        ''        disc_facility,'',
        ''        disc_locale'',
        ''    FROM ('',
        ''        SELECT'',
        ''            pl_name,'',
        ''            pl_masse,'',
        ''            pl_rade,'',
        ''            pl_orbper,'',
        ''            discoverymethod,'',
        ''            disc_year,'',
        ''            disc_facility,'',
        ''            disc_locale'',
        ''        FROM pscomppars'',
        ''        WHERE discoverymethod = '' @ [quote] @ metodo_escapado @ [quote],
        ''        ORDER BY disc_year DESC'',
        ''    )'',
        ''    WHERE ROWNUM <= '' @ str_int limite,
        ''    '']"


text \<open>The query of \<open>exoplanetas_mas_cercanos\<close>.\<close>

definition exoplanetas_mas_cercanos_query :: "int \<Rightarrow> string" where
  "exoplanetas_mas_cercanos_query numero_planetas =
     join [nl]
       [[],
        ''    SELECT'',
        ''        pl_name,'',
        ''        sy_dist,'',
        ''        pl_masse,'',
        ''        pl_rade,'',
        ''        pl_orbper,'',
        ''        pl_eqt,'',
        ''        disc_year,'',
        ''        disc_locale'',
        ''    FROM ('',
        ''        SELECT'',
        ''            pl_name,'',
        ''            sy_dist,'',
        ''            pl_masse,'',
        ''            pl_rade,'',
        ''            pl_orbper,'',
        ''            pl_eqt,'',
        ''            disc_year,'',
        ''            disc_locale'',
        ''        FROM pscomppars'',
        ''        WHERE sy_dist IS NOT NULL'',
        ''        ORDER BY sy_dist ASC'',
        ''    )'',
        ''    WHERE ROWNUM <= '' @ str_int numero_planetas,
        ''    '']"

text \<open>The query of \<open>busqueda_avanzada\<close>.\<close>

definition busqueda_avanzada_query :: "string \<Rightarrow> int \<Rightarrow> string" where
  "busqueda_avanzada_query where_clause limite =
     join [nl]
       [[],
        ''    SELECT'',
        ''        pl_name,'',
        ''        pl_masse,'',
        ''        pl_rade,'',
        ''        pl_orbper,'',
        ''        sy_dist,'',
        ''        pl_eqt,'',
        ''        discoverymethod,'',
        ''        disc_year,'',
        ''        disc_locale,'',
        ''        disc_facility'',
        ''    FROM ('',
        ''        SELECT'',
        ''            pl_name,'',
        ''            pl_masse,'',
        ''            pl_rade,'',
        ''            pl_orbper,'',
        ''            sy_dist,'',
        ''            pl_eqt,'',
        ''            discoverymethod,'',
        ''            disc_year,'',
        ''            disc_locale,'',
        ''            disc_facility'',
        ''        FROM pscomppars'',
        ''        '' @ where_clause,
        ''        ORDER BY disc_year DESC'',
        ''    )'',
        ''    WHERE ROWNUM <= '' @ str_int limite,
        ''    '']"

text \<open>The query of \<open>comparar_con_tierra\<close>.\<close>

definition comparar_con_tierra_query :: "string \<Rightarrow> string" where
  "comparar_con_tierra_query nombre_escapado =
     join [nl]
       [[],
        ''    SELECT'',
        ''        pl_name,'',
        ''        pl_masse,'',
        ''        pl_rade,'',
        ''        pl_orbper,'',
        ''        pl_eqt,'',
        ''        sy_dist,'',
        ''        discoverymethod,'',
        ''        disc_year,'',
        ''        disc_locale'',
        ''    FROM pscomppars'',
        ''    WHERE pl_name = '' @ [quote] @ nombre_escapado @ [quote],
        ''    '']"

text \<open>The query of \<open>calcular_velocidad_escape\<close>.\<close>

definition calcular_velocidad_escape_query :: "string \<Rightarrow> string" where
  "calcular_velocidad_escape_query nombre_escapado =
     join [nl]
       [[],
        ''    SELECT'',
        ''        pl_name,'',
        ''        pl_masse,'',
        ''        pl_rade,'',
        ''        pl_eqt,'',
        ''        sy_dist'',
        ''    FROM pscomppars'',
        ''    WHERE pl_name = '' @ [quote] @ nombre_escapado @ [quote],
        ''    '']"

subsection \<open>Python operations on cells\<close>

text \<open>Sequencing of statements that may raise: the first exception ends the block.\<close>

definition try_bind :: "py_exc + 'a \<Rightarrow> ('a \<Rightarrow> py_exc + 'b) \<Rightarrow> py_exc + 'b" where
  "try_bind m f = (case m of Inl e \<Rightarrow> Inl e | Inr x \<Rightarrow> f x)"

text \<open>\<open>data[k]\<close> on a dict: the value, or \<open>KeyError\<close>.\<close>

definition getitem :: "row \<Rightarrow> string \<Rightarrow> py_exc + cell" where
  "getitem data k = (case map_of data k of None \<Rightarrow> Inl (KeyError k) | Some v \<Rightarrow> Inr v)"

text \<open>
  A cell as the left operand of an arithmetic operator or comparison with a float: a number,
  or \<open>TypeError\<close> with the message of that operator. The callers exclude \<open>Missing\<close>
  before they compute.
\<close>

fun operand :: "string \<Rightarrow> cell \<Rightarrow> py_exc + real" where
  "operand msg (CInt i) = Inr (of_int i)"
| "operand msg (CFloat x) = Inr x"
| "operand msg (CStr s) = Inl (TypeError msg)"
| "operand msg Missing = Inl (TypeError msg)"

definition msg_lt :: string where
  "msg_lt = [quote] @ ''<'' @ [quote] @ '' not supported between instances of '' @ [quote]
            @ ''str'' @ [quote] @ '' and '' @ [quote] @ ''float'' @ [quote]"

definition msg_truediv :: string where
  "msg_truediv = ''unsupported operand type(s) for /: '' @ [quote] @ ''str'' @ [quote]
                 @ '' and '' @ [quote] @ ''float'' @ [quote]"

definition msg_mul :: string where
  "msg_mul = ''can'' @ [quote] @ ''t multiply sequence by non-int of type '' @ [quote]
             @ ''float'' @ [quote]"

text \<open>\<open>x / y\<close> on floats raises on a zero divisor; \<open>math.sqrt\<close> raises on a negative argument.\<close>

definition py_div :: "real \<Rightarrow> real \<Rightarrow> py_exc + real" where
  "py_div x y = (if y = 0 then Inl (ZeroDivisionError ''float division by zero'') else Inr (x / y))"

definition math_sqrt :: "real \<Rightarrow> py_exc + real" where
  "math_sqrt x = (if x < 0 then Inl (ValueError ''math domain error'') else Inr (sqrt x))"

subsection \<open>Envelopes shared by the tools\<close>

definition nombre_vacio :: jval where
  "nombre_vacio =
     JObj [(''status'', JStr ''error''),
           (''message'', JStr (''El nombre no puede estar vac'' @ [CHR 0xED] @ ''o''))]"

definition error_validacion :: "py_exc \<Rightarrow> jval" where
  "error_validacion e = JObj [(''status'', JStr ''error''), (''message'', JStr (str_exc e))]"

definition error_inesperado :: "py_exc \<Rightarrow> jval" where
  "error_inesperado e =
     JObj [(''status'', JStr ''error''),
           (''error_type'', JStr ''unknown''),
           (''message'', JStr (''Error inesperado: '' @ str_exc e))]"

definition no_encontrado :: "string \<Rightarrow> jval" where
  "no_encontrado nombre_exoplaneta =
     JObj [(''status'', JStr ''empty''),
           (''message'', JStr (''No se encontr'' @ [CHR 0xF3] @ '' el exoplaneta '' @ [quote]
                               @ nombre_exoplaneta @ [quote])),
           (''data'', JArr [])]"

subsection \<open>The tools that return the rows as they are\<close>

definition buscar_datos_exoplaneta :: "tap_service \<Rightarrow> string \<Rightarrow> jval \<times> string list" where
  "buscar_datos_exoplaneta svc nombre =
     (if nombre = [] \<or> strip nombre = [] then (nombre_vacio, [])
      else
        let nombre_escapado = replace [quote] [quote, quote] nombre;
            query = buscar_datos_exoplaneta_query nombre_escapado
        in ejecutar_query_segura svc query (''exoplaneta '' @ [quote] @ nombre @ [quote]))"

definition listar_exoplanetas_mas_masivos :: "tap_service \<Rightarrow> int \<Rightarrow> jval \<times> string list" where
  "listar_exoplanetas_mas_masivos svc numero_planetas =
     (case validar_numero_positivo numero_planetas ''numero_planetas'' 500 of
        Inl e \<Rightarrow> (error_validacion e, [])
      | Inr _ \<Rightarrow>
          ejecutar_query_segura svc (listar_exoplanetas_mas_masivos_query numero_planetas)
            (''top '' @ str_int numero_planetas @ '' exoplanetas m'' @ [CHR 0xE1] @ ''s masivos''))"

definition buscar_planetas_habitables :: "tap_service \<Rightarrow> int \<Rightarrow> jval \<times> string list" where
  "buscar_planetas_habitables svc numero_planetas =
     (case validar_numero_positivo numero_planetas ''numero_planetas'' 100 of
        Inl e \<Rightarrow> (error_validacion e, [])
      | Inr _ \<Rightarrow>
          ejecutar_query_segura svc (buscar_planetas_habitables_query numero_planetas)
            ''planetas potencialmente habitables'')"

definition buscar_por_metodo_descubrimiento ::
  "tap_service \<Rightarrow> string \<Rightarrow> int \<Rightarrow> jval \<times> string list" where
  "buscar_por_metodo_descubrimiento svc metodo limite =
     (case validar_numero_positivo limite ''limite'' 200 of
        Inl e \<Rightarrow> (error_validacion e, [])
      | Inr _ \<Rightarrow>
          let metodo_escapado = replace [quote] [quote, quote] metodo;
              query = buscar_por_metodo_descubrimiento_query metodo_escapado limite
          in ejecutar_query_segura svc query (''exoplanetas descubiertos por '' @ metodo))"


definition where_clause_of :: "string list \<Rightarrow> string" where
  "where_clause_of condiciones =
     (if condiciones \<noteq> [] then ''WHERE '' @ join '' AND '' condiciones else [])"


definition exoplanetas_mas_cercanos :: "tap_service \<Rightarrow> int \<Rightarrow> jval \<times> string list" where
  "exoplanetas_mas_cercanos svc numero_planetas =
     (case validar_numero_positivo numero_planetas ''numero_planetas'' 100 of
        Inl e \<Rightarrow> (error_validacion e, [])
      | Inr _ \<Rightarrow>
          ejecutar_query_segura svc (exoplanetas_mas_cercanos_query numero_planetas)
            (''top '' @ str_int numero_planetas @ '' exoplanetas m'' @ [CHR 0xE1] @ ''s cercanos''))"

text \<open>
  \<open>busqueda_avanzada\<close>: the conditions in the order the source appends them. The six numeric
  filters are tested with \<open>is not None\<close>, \<open>metodo\<close> and \<open>locale\<close> with \<open>if metodo:\<close>, which
  holds for a string that is not empty. \<open>repr_float\<close> is the text an f-string gives a float.
\<close>

definition busqueda_avanzada_condiciones ::
  "(real \<Rightarrow> string) \<Rightarrow> real option \<Rightarrow> real option \<Rightarrow> real option \<Rightarrow> real option \<Rightarrow> real option
   \<Rightarrow> int option \<Rightarrow> string option \<Rightarrow> string option \<Rightarrow> string list" where
  "busqueda_avanzada_condiciones repr_float masa_min masa_max periodo_min periodo_max
       distancia_max anio_descubrimiento_min metodo locale =
     (case masa_min of None \<Rightarrow> [] | Some v \<Rightarrow> [''pl_masse >= '' @ repr_float v])
     @ (case masa_max of None \<Rightarrow> [] | Some v \<Rightarrow> [''pl_masse <= '' @ repr_float v])
     @ (case periodo_min of None \<Rightarrow> [] | Some v \<Rightarrow> [''pl_orbper >= '' @ repr_float v])
     @ (case periodo_max of None \<Rightarrow> [] | Some v \<Rightarrow> [''pl_orbper <= '' @ repr_float v])
     @ (case distancia_max of None \<Rightarrow> [] | Some v \<Rightarrow> [''sy_dist <= '' @ repr_float v])
     @ (case anio_descubrimiento_min of None \<Rightarrow> [] | Some y \<Rightarrow> [''disc_year >= '' @ str_int y])
     @ (case metodo of
          None \<Rightarrow> []
        | Some m \<Rightarrow>
            if m \<noteq> [] then
              [''discoverymethod = '' @ [quote] @ replace [quote] [quote, quote] m @ [quote]]
            else [])
     @ (case locale of
          None \<Rightarrow> []
        | Some l \<Rightarrow>
            if l \<noteq> [] then
              [''disc_locale = '' @ [quote] @ replace [quote] [quote, quote] l @ [quote]]
            else [])"

definition busqueda_avanzada ::
  "tap_service \<Rightarrow> (real \<Rightarrow> string) \<Rightarrow> real option \<Rightarrow> real option \<Rightarrow> real option \<Rightarrow> real option
   \<Rightarrow> real option \<Rightarrow> int option \<Rightarrow> string option \<Rightarrow> string option \<Rightarrow> int
   \<Rightarrow> jval \<times> string list" where
  "busqueda_avanzada svc repr_float masa_min masa_max periodo_min periodo_max distancia_max
       anio_descubrimiento_min metodo locale limite =
     (case validar_numero_positivo limite ''limite'' 200 of
        Inl e \<Rightarrow> (error_validacion e, [])
      | Inr _ \<Rightarrow>
          let condiciones =
                busqueda_avanzada_condiciones repr_float masa_min masa_max periodo_min periodo_max
                  distancia_max anio_descubrimiento_min metodo locale;
              where_clause = where_clause_of condiciones;
              query = busqueda_avanzada_query where_clause limite
          in ejecutar_query_segura svc query
               (''b'' @ [CHR 0xFA] @ ''squeda avanzada personalizada''))"

subsection \<open>\<open>comparar_con_tierra\<close>\<close>

text \<open>
  The block after the fetch, on \<open>data = df.iloc[0].to_dict()\<close>: the period in years, then the
  mass label. An assignment \<open>data[k] = v\<close> replaces the value of an existing key and appends a
  new key at the end.
\<close>

definition PERIODO_TIERRA_DIAS :: real where
  "PERIODO_TIERRA_DIAS = 365.25"

definition anios_terrestres :: string where
  "anios_terrestres = ''a'' @ [CHR 0xF1] @ ''os_terrestres''"

definition interpretacion_masa :: "cell \<Rightarrow> py_exc + string list" where
  "interpretacion_masa pl_masse =
     (if pl_masse \<noteq> Missing then
        try_bind (operand msg_lt pl_masse) (\<lambda>m.
          if m < 0.5 then
            Inr [''Planeta muy ligero (posiblemente rocoso peque'' @ [CHR 0xF1] @ ''o)'']
          else if m \<le> 2.0 then Inr [''Masa similar a la Tierra (super-Tierra)'']
          else if m \<le> 10.0 then Inr [''Mini-Neptuno'']
          else Inr [''Gigante gaseoso''])
      else Inr [])"

definition comparar_con_tierra_datos :: "row \<Rightarrow> py_exc + row" where
  "comparar_con_tierra_datos data =
     try_bind (getitem data ''pl_orbper'') (\<lambda>pl_orbper.
     try_bind
       (if pl_orbper \<noteq> Missing then
          try_bind (operand msg_truediv pl_orbper) (\<lambda>p.
            Inr (AList.update anios_terrestres (CFloat (round2 (p / PERIODO_TIERRA_DIAS))) data))
        else Inr (AList.update anios_terrestres Missing data)) (\<lambda>data1.
     try_bind (getitem data1 ''pl_masse'') (\<lambda>pl_masse.
     try_bind (interpretacion_masa pl_masse) (\<lambda>interpretacion.
       Inr (AList.update ''interpretacion''
              (if interpretacion \<noteq> [] then CStr (join ''; '' interpretacion) else Missing)
              data1)))))"

definition comparar_con_tierra :: "tap_service \<Rightarrow> string \<Rightarrow> jval \<times> string list" where
  "comparar_con_tierra svc nombre_exoplaneta =
     (if nombre_exoplaneta = [] \<or> strip nombre_exoplaneta = [] then (nombre_vacio, [])
      else
        let nombre_escapado = replace [quote] [quote, quote] nombre_exoplaneta;
            query = comparar_con_tierra_query nombre_escapado
        in ((case svc query of
               Raises e \<Rightarrow> error_inesperado e
             | Rows df \<Rightarrow>
                 (case df of
                    [] \<Rightarrow> no_encontrado nombre_exoplaneta
                  | fila # _ \<Rightarrow>
                      (case comparar_con_tierra_datos fila of
                         Inl e \<Rightarrow> error_inesperado e
                       | Inr data \<Rightarrow>
                           JObj [(''status'', JStr ''success''),
                                 (''count'', JInt 1),
                                 (''data'', JArr [row_json data])]))),
            [query]))"

subsection \<open>\<open>calcular_velocidad_escape\<close>\<close>

definition G :: real where
  "G = 6.674 / 10 ^ 11"

definition MASA_TIERRA_KG :: real where
  "MASA_TIERRA_KG = 5.972 * 10 ^ 24"

definition RADIO_TIERRA_M :: real where
  "RADIO_TIERRA_M = 6.371 * 10 ^ 6"

definition V_ESCAPE_TIERRA :: real where
  "V_ESCAPE_TIERRA = 11.2"

text \<open>
  The formula, from the two Earth-relative numbers to \<open>v_escape_kms\<close>: the unit conversions,
  the quotient, the square root and the division by 1000, in exact arithmetic. The code
  computes in binary64, so a computed velocity can differ from this one in its last digits
  (and is infinite or NaN on overflow); what is proved about the value the tool reports is
  proved at inputs where that does not decide, and the rounding itself is in
  \<open>v_escape_kms_binary64\<close> below.
\<close>

definition v_escape_kms :: "real \<Rightarrow> real \<Rightarrow> py_exc + real" where
  "v_escape_kms pl_masse pl_rade =
     (let masa_kg = pl_masse * MASA_TIERRA_KG;
          radio_m = pl_rade * RADIO_TIERRA_M
      in try_bind (py_div (2 * G * masa_kg) radio_m) (\<lambda>q.
         try_bind (math_sqrt q) (\<lambda>v_escape_ms.
           Inr (v_escape_ms / 1000))))"

text \<open>The first note and the difficulty label, by the five tiers; then the rocket note.\<close>

definition nivel_escape :: "real \<Rightarrow> string \<times> string" where
  "nivel_escape v =
     (if v < 5 then
        (''Muy baja - atm'' @ [CHR 0xF3] @ ''sfera ligera o inexistente'',
         ''Muy f'' @ [CHR 0xE1] @ ''cil de escapar'')
      else if v < 11 then
        (''Similar a la Tierra - puede retener atm'' @ [CHR 0xF3] @ ''sfera'',
         ''Moderadamente dif'' @ [CHR 0xED] @ ''cil'')
      else if v < 30 then
        (''Alta - gravedad superficial significativa'',
         ''Dif'' @ [CHR 0xED] @ ''cil de escapar'')
      else if v < 60 then
        (''Muy alta - gigante gaseoso peque'' @ [CHR 0xF1] @ ''o'',
         ''Muy dif'' @ [CHR 0xED] @ ''cil de escapar'')
      else
        (''Extremadamente alta - gigante gaseoso masivo'',
         ''Extremadamente dif'' @ [CHR 0xED] @ ''cil de escapar''))"

definition nota_cohete :: "real \<Rightarrow> string" where
  "nota_cohete v =
     (if v < 20 then ''Un cohete tipo Saturn V podr'' @ [CHR 0xED] @ ''a escapar''
      else ''Requerir'' @ [CHR 0xED] @ ''a cohetes m'' @ [CHR 0xE1]
           @ ''s potentes que los actuales'')"

definition contexto :: jval where
  "contexto =
     JObj [(''luna'', JNum 2.4),
           (''marte'', JNum 5.0),
           (''tierra'', JNum 11.2),
           (''jupiter'', JNum 59.5),
           (''sol'', JNum 617.5)]"

definition sin_masa_o_radio :: "string \<Rightarrow> jval" where
  "sin_masa_o_radio nombre_exoplaneta =
     JObj [(''status'', JStr ''error''),
           (''message'', JStr (''El exoplaneta '' @ [quote] @ nombre_exoplaneta @ [quote]
              @ '' no tiene datos de masa o radio necesarios para calcular velocidad de escape'')),
           (''data'', JArr [])]"

text \<open>The block after the fetch: the envelope it returns, or the exception it raises.\<close>

definition calcular_velocidad_escape_datos :: "string \<Rightarrow> row \<Rightarrow> py_exc + jval" where
  "calcular_velocidad_escape_datos nombre_exoplaneta data =
     try_bind (getitem data ''pl_masse'') (\<lambda>pl_masse.
       if pl_masse = Missing then Inr (sin_masa_o_radio nombre_exoplaneta)
       else
     try_bind (getitem data ''pl_rade'') (\<lambda>pl_rade.
       if pl_rade = Missing then Inr (sin_masa_o_radio nombre_exoplaneta)
       else
     try_bind (operand msg_mul pl_masse) (\<lambda>m.
     try_bind (operand msg_mul pl_rade) (\<lambda>r.
     try_bind (v_escape_kms m r) (\<lambda>v.
       let ratio_tierra = v / V_ESCAPE_TIERRA;
           (nota, dificultad_escape) = nivel_escape v;
           interpretacion = [nota, nota_cohete v]
       in
     try_bind (getitem data ''pl_name'') (\<lambda>pl_name.
       Inr (JObj [(''status'', JStr ''success''),
                  (''count'', JInt 1),
                  (''data'', JArr
                     [JObj [(''pl_name'', cell_json pl_name),
                            (''pl_masse'', cell_json pl_masse),
                            (''pl_rade'', cell_json pl_rade),
                            (''velocidad_escape_kms'', JNum (round2 v)),
                            (''velocidad_escape_tierra'', JNum V_ESCAPE_TIERRA),
                            (''ratio_vs_tierra'', JNum (round2 ratio_tierra)),
                            (''dificultad_escape'', JStr dificultad_escape),
                            (''interpretacion'', JStr (join ''; '' interpretacion)),
                            (''contexto'', contexto)]])])))))))"

definition calcular_velocidad_escape :: "tap_service \<Rightarrow> string \<Rightarrow> jval \<times> string list" where
  "calcular_velocidad_escape svc nombre_exoplaneta =
     (if nombre_exoplaneta = [] \<or> strip nombre_exoplaneta = [] then (nombre_vacio, [])
      else
        let nombre_escapado = replace [quote] [quote, quote] nombre_exoplaneta;
            query = calcular_velocidad_escape_query nombre_escapado
        in ((case svc query of
               Raises e \<Rightarrow> error_inesperado e
             | Rows df \<Rightarrow>
                 (case df of
                    [] \<Rightarrow> no_encontrado nombre_exoplaneta
                  | fila # _ \<Rightarrow>
                      (case calcular_velocidad_escape_datos nombre_exoplaneta fila of
                         Inl e \<Rightarrow> error_inesperado e
                       | Inr envelope \<Rightarrow> envelope))),
            [query]))"

subsection \<open>The formula in binary64\<close>

text \<open>
  The tools above compute with real numbers. Where the rounding of Python floats decides a
  property, the formula is taken again with the rounding of IEEE 754 binary64 after every
  operation: \<open>fl x\<close> is the number with a 53-bit significand nearest to \<open>x\<close>, a tie going
  to the even significand. The exponent is unbounded, so overflow and subnormal numbers are
  outside the model. In \<open>2 * G * masa_kg\<close> the product \<open>2 * G\<close> is taken first.
\<close>

definition fl :: "real \<Rightarrow> real" where
  "fl x =
     (if x = 0 then 0
      else let e = \<lfloor>log 2 \<bar>x\<bar>\<rfloor> - 52
           in of_int (round_half_even (x / power_int 2 e)) * power_int 2 e)"

text \<open>Lines 592 to 597 of the source, each operation rounded.\<close>

definition v_escape_kms_binary64 :: "real \<Rightarrow> real \<Rightarrow> py_exc + real" where
  "v_escape_kms_binary64 pl_masse pl_rade =
     (let masa_kg = fl (pl_masse * fl MASA_TIERRA_KG);
          radio_m = fl (pl_rade * fl RADIO_TIERRA_M)
      in try_bind (py_div (fl (fl (2 * fl G) * masa_kg)) radio_m) (\<lambda>q.
         try_bind (math_sqrt (fl q)) (\<lambda>v_escape_ms.
           Inr (fl (fl v_escape_ms / 1000)))))"

text \<open>
  \<open>fl\<close> is the rounding of the hardware for results whose magnitude is a normal binary64
  number, from \<open>2 powi -1022\<close> up to \<open>2 powi 1024\<close>. \<open>entre a b x\<close> bounds a number by two
  powers of two, and \<open>intermedios_binary64\<close> lists every rounded result on the way to the
  velocity, so that a statement can say that none of them leaves that range.
\<close>

definition entre :: "int \<Rightarrow> int \<Rightarrow> real \<Rightarrow> bool" where
  "entre a b x = (power_int 2 a \<le> x \<and> x \<le> power_int 2 b)"

definition intermedios_binary64 :: "real \<Rightarrow> real \<Rightarrow> real list" where
  "intermedios_binary64 pl_masse pl_rade =
     (let masa_kg = fl (pl_masse * fl MASA_TIERRA_KG);
          radio_m = fl (pl_rade * fl RADIO_TIERRA_M);
          numerador = fl (fl (2 * fl G) * masa_kg);
          q = fl (numerador / radio_m);
          v_escape_ms = fl (sqrt q)
      in [fl MASA_TIERRA_KG, fl RADIO_TIERRA_M, fl G, fl (2 * fl G), masa_kg, radio_m,
          numerador, q, v_escape_ms, fl (v_escape_ms / 1000)])"

subsection \<open>Example inputs\<close>

text \<open>A row with the mass and the radius of the Earth, and a service that returns it.\<close>

definition fila_tierra :: row where
  "fila_tierra =
     [(''pl_name'', CStr ''Tierra''), (''pl_masse'', CFloat 1), (''pl_rade'', CFloat 1),
      (''pl_eqt'', Missing), (''sy_dist'', Missing)]"

definition servicio_tierra :: tap_service where
  "servicio_tierra query = Rows [fila_tierra]"

text \<open>A service with no rows, and a float formatter for the examples.\<close>

definition servicio_vacio :: tap_service where
  "servicio_vacio query = Rows []"

definition repr_ejemplo :: "real \<Rightarrow> string" where
  "repr_ejemplo x = ''1.0''"

text \<open>A name with a quote in it.\<close>

definition nombre_con_comilla :: string where
  "nombre_con_comilla = ''O'' @ [quote] @ ''x''"

text \<open>A service that returns the given rows, and a row of the comparison query with a given mass.\<close>

definition servicio_de :: "row list \<Rightarrow> tap_service" where
  "servicio_de filas query = Rows filas"

definition fila_masa :: "cell \<Rightarrow> row" where
  "fila_masa pl_masse =
     [(''pl_name'', CStr ''Kepler-442 b''), (''pl_masse'', pl_masse), (''pl_rade'', CFloat 1.34),
      (''pl_orbper'', CFloat 730.5), (''pl_eqt'', Missing), (''sy_dist'', CFloat 365.965),
      (''discoverymethod'', CStr ''Transit''), (''disc_year'', CInt 2015),
      (''disc_locale'', CStr ''Space'')]"

text \<open>A row with a float that has more than ten decimals, and a service that returns it.\<close>

definition fila_decimal :: row where
  "fila_decimal = [(''pl_name'', CStr ''Kepler-442 b''), (''pl_orbsmax'', CFloat (3 / 2 ^ 36))]"

definition servicio_decimal :: tap_service where
  "servicio_decimal query = Rows [fila_decimal]"

section \<open>Properties\<close>

subsection \<open>Strings\<close>

lemma contains_prefix: "prefix sub s \<Longrightarrow> contains sub s"
  by (cases s) auto

lemma contains_Nil: "contains [] t"
  by (cases t) auto

lemma contains_append_right: "contains sub s \<Longrightarrow> contains sub (s @ t)"
proof (induction s)
  case Nil
  then show ?case by (simp add: contains_Nil)
next
  case (Cons a s)
  from Cons.prems have "prefix sub (a # s) \<or> contains sub s" by simp
  then show ?case
  proof
    assume "prefix sub (a # s)"
    then have "prefix sub ((a # s) @ t)" by (rule prefix_prefix)
    then show ?thesis by simp
  next
    assume "contains sub s"
    then show ?thesis using Cons.IH by simp
  qed
qed

lemma contains_append_left: "contains sub s \<Longrightarrow> contains sub (t @ s)"
  by (induction t) auto

lemma contains_self: "contains s s"
  by (simp add: contains_prefix)

lemma contains_mid: "contains sub (a @ sub @ b)"
  by (simp add: contains_append_left contains_append_right contains_self)

lemma contains_suffix: "contains sub (a @ sub)"
  by (simp add: contains_append_left contains_self)

lemma contains_join: "x \<in> set xs \<Longrightarrow> contains sub x \<Longrightarrow> contains sub (join sep xs)"
  by (induction sep xs rule: join.induct)
     (auto simp: contains_append_left contains_append_right)

lemma replace_Nil: "old \<noteq> [] \<Longrightarrow> replace old new [] = []"
  by (simp add: replace.simps)

lemma replace_quote_Cons:
  "replace [quote] [quote, quote] (c # s) =
     (if c = quote then [quote, quote] else [c]) @ replace [quote] [quote, quote] s"
  by (subst replace.simps) auto

lemma replace_quote_concat:
  "replace [quote] [quote, quote] s = concat (map (\<lambda>c. if c = quote then [quote, quote] else [c]) s)"
  by (induction s) (simp_all add: replace_Nil replace_quote_Cons)

lemma unescape_quote_quote:
  "replace [quote, quote] [quote] (quote # quote # s) = quote # replace [quote, quote] [quote] s"
  by (subst replace.simps) simp

lemma unescape_other:
  "c \<noteq> quote \<Longrightarrow> replace [quote, quote] [quote] (c # s) = c # replace [quote, quote] [quote] s"
  by (subst replace.simps) simp

lemma replace_roundtrip:
  "replace [quote, quote] [quote] (replace [quote] [quote, quote] s) = s"
  by (induction s) (simp_all add: replace_Nil replace_quote_Cons unescape_quote_quote unescape_other)


subsection \<open>Rounding and the escape velocity\<close>

lemma round_half_even_near:
  assumes "of_int n - 1 / 2 < y" and "y < of_int n + 1 / 2"
  shows "round_half_even y = n"
proof -
  have "\<lfloor>y\<rfloor> = n \<or> \<lfloor>y\<rfloor> = n - 1"
    using assms by linarith
  then show ?thesis
  proof
    assume f: "\<lfloor>y\<rfloor> = n"
    then have "y - of_int \<lfloor>y\<rfloor> < 1 / 2" using assms by simp
    then show ?thesis using f by (simp add: round_half_even_def Let_def)
  next
    assume f: "\<lfloor>y\<rfloor> = n - 1"
    then have "y - of_int \<lfloor>y\<rfloor> > 1 / 2" using assms by simp
    then show ?thesis using f by (simp add: round_half_even_def Let_def)
  qed
qed

lemma quotient_earth: "2 * G * (1 * MASA_TIERRA_KG) / (1 * RADIO_TIERRA_M) = 797142560000000 / 6371000"
  by (simp add: G_def MASA_TIERRA_KG_def RADIO_TIERRA_M_def)

lemma sqrt_earth_lower: "11185 < sqrt (797142560000000 / 6371000)"
  by (rule real_less_rsqrt) simp

lemma sqrt_earth_upper: "sqrt (797142560000000 / 6371000) < 11190"
  by (rule real_less_lsqrt) simp_all

lemma round2_earth: "round2 (sqrt (797142560000000 / 6371000) / 1000) = 11.19"
proof -
  have "round_half_even (sqrt (797142560000000 / 6371000) / 1000 * 100) = 1119"
    using sqrt_earth_lower sqrt_earth_upper by (intro round_half_even_near) simp_all
  then show ?thesis by (simp add: round2_def)
qed

lemma round2_ratio_earth: "round2 (sqrt (797142560000000 / 6371000) / 1000 / V_ESCAPE_TIERRA) = 1"
proof -
  have "round_half_even (sqrt (797142560000000 / 6371000) / 1000 / V_ESCAPE_TIERRA * 100) = 100"
    using sqrt_earth_lower sqrt_earth_upper
    by (intro round_half_even_near) (simp_all add: V_ESCAPE_TIERRA_def)
  then show ?thesis by (simp add: round2_def)
qed

lemma nivel_earth: "nivel_escape (sqrt (797142560000000 / 6371000) / 1000) =
   (''Alta - gravedad superficial significativa'', ''Dif'' @ [CHR 0xED] @ ''cil de escapar'')"
  using sqrt_earth_lower sqrt_earth_upper by (simp add: nivel_escape_def)

lemma nota_earth: "nota_cohete (sqrt (797142560000000 / 6371000) / 1000) =
    ''Un cohete tipo Saturn V podr'' @ [CHR 0xED] @ ''a escapar''"
  using sqrt_earth_lower sqrt_earth_upper by (simp add: nota_cohete_def)

lemma RADIO_TIERRA_M_pos: "0 < RADIO_TIERRA_M"
  by (simp add: RADIO_TIERRA_M_def)

lemma G_MASA_pos: "0 < G" "0 < MASA_TIERRA_KG"
  by (simp_all add: G_def MASA_TIERRA_KG_def)

lemma v_escape_kms_pos:
  assumes "0 \<le> m" "0 < r"
  shows "v_escape_kms m r = Inr (sqrt (2 * G * (m * MASA_TIERRA_KG) / (r * RADIO_TIERRA_M)) / 1000)"
proof -
  have d: "r * RADIO_TIERRA_M \<noteq> 0" "0 < r * RADIO_TIERRA_M"
    using assms RADIO_TIERRA_M_pos by simp_all
  have "0 \<le> 2 * G * (m * MASA_TIERRA_KG)"
    using assms G_MASA_pos by simp
  then have q: "\<not> 2 * G * (m * MASA_TIERRA_KG) / (r * RADIO_TIERRA_M) < 0"
    using d(2) by (simp add: not_less)
  show ?thesis
    unfolding v_escape_kms_def Let_def py_div_def math_sqrt_def try_bind_def
    using d(1) q by (simp only: if_False sum.case)
qed

lemma v_escape_kms_earth: "v_escape_kms 1 1 = Inr (sqrt (797142560000000 / 6371000) / 1000)"
  using v_escape_kms_pos [of 1 1] by (simp only: quotient_earth)

lemma mono_mass:
  assumes "0 < r" "0 < m1" "m1 < m2"
  shows "sqrt (2 * G * (m1 * MASA_TIERRA_KG) / (r * RADIO_TIERRA_M)) / 1000
       < sqrt (2 * G * (m2 * MASA_TIERRA_KG) / (r * RADIO_TIERRA_M)) / 1000"
proof -
  have "0 < r * RADIO_TIERRA_M" using assms by (simp add: RADIO_TIERRA_M_def)
  moreover have "2 * G * (m1 * MASA_TIERRA_KG) < 2 * G * (m2 * MASA_TIERRA_KG)"
    using assms by (simp add: G_def MASA_TIERRA_KG_def)
  ultimately have "2 * G * (m1 * MASA_TIERRA_KG) / (r * RADIO_TIERRA_M)
                 < 2 * G * (m2 * MASA_TIERRA_KG) / (r * RADIO_TIERRA_M)"
    by (simp only: divide_strict_right_mono)
  then show ?thesis by simp
qed

lemma mono_radius:
  assumes "0 < m" "0 < r1" "r1 < r2"
  shows "sqrt (2 * G * (m * MASA_TIERRA_KG) / (r2 * RADIO_TIERRA_M)) / 1000
       < sqrt (2 * G * (m * MASA_TIERRA_KG) / (r1 * RADIO_TIERRA_M)) / 1000"
proof -
  have "0 < r1 * RADIO_TIERRA_M" using assms by (simp add: RADIO_TIERRA_M_def)
  moreover have "r1 * RADIO_TIERRA_M < r2 * RADIO_TIERRA_M"
    using assms by (simp add: RADIO_TIERRA_M_def)
  moreover have "0 < 2 * G * (m * MASA_TIERRA_KG)"
    using assms by (simp add: G_def MASA_TIERRA_KG_def)
  ultimately have "2 * G * (m * MASA_TIERRA_KG) / (r2 * RADIO_TIERRA_M)
                 < 2 * G * (m * MASA_TIERRA_KG) / (r1 * RADIO_TIERRA_M)"
    by (simp add: divide_strict_left_mono)
  then show ?thesis by simp
qed


lemma calcular_datos_numeric:
  assumes "map_of data ''pl_masse'' = Some a" "a \<noteq> Missing"
    and "map_of data ''pl_rade'' = Some b" "b \<noteq> Missing"
    and "operand msg_mul a = Inr m" "operand msg_mul b = Inr r"
    and "v_escape_kms m r = Inr v"
    and "map_of data ''pl_name'' = Some n"
  shows "calcular_velocidad_escape_datos nombre data =
     Inr (JObj [(''status'', JStr ''success''),
                (''count'', JInt 1),
                (''data'', JArr
                   [JObj [(''pl_name'', cell_json n),
                          (''pl_masse'', cell_json a),
                          (''pl_rade'', cell_json b),
                          (''velocidad_escape_kms'', JNum (round2 v)),
                          (''velocidad_escape_tierra'', JNum V_ESCAPE_TIERRA),
                          (''ratio_vs_tierra'', JNum (round2 (v / V_ESCAPE_TIERRA))),
                          (''dificultad_escape'', JStr (snd (nivel_escape v))),
                          (''interpretacion'',
                             JStr (fst (nivel_escape v) @ ''; '' @ nota_cohete v)),
                          (''contexto'', contexto)]])])"
  using assms
  by (simp add: calcular_velocidad_escape_datos_def getitem_def try_bind_def Let_def
      split: prod.split)

lemma strip_Tierra: "strip ''Tierra'' = ''Tierra''"
  by (simp add: strip_def isspace_def)

lemma strip_nonempty: "strip s \<noteq> [] \<Longrightarrow> s \<noteq> []"
  by (auto simp: strip_def)

lemma calcular_velocidad_escape_fila:
  assumes "strip nombre \<noteq> []"
    and "svc (calcular_velocidad_escape_query (replace [quote] [quote, quote] nombre))
           = Rows (fila # resto)"
  shows "fst (calcular_velocidad_escape svc nombre) =
           (case calcular_velocidad_escape_datos nombre fila of
              Inl e \<Rightarrow> error_inesperado e
            | Inr envelope \<Rightarrow> envelope)"
  using assms strip_nonempty [OF assms(1)] by (simp add: calcular_velocidad_escape_def Let_def)

lemma calcular_velocidad_escape_datos_tierra:
  "calcular_velocidad_escape_datos ''Tierra'' fila_tierra =
     Inr (JObj [(''status'', JStr ''success''),
           (''count'', JInt 1),
           (''data'', JArr
              [JObj [(''pl_name'', JStr ''Tierra''),
                     (''pl_masse'', JNum 1),
                     (''pl_rade'', JNum 1),
                     (''velocidad_escape_kms'', JNum 11.19),
                     (''velocidad_escape_tierra'', JNum V_ESCAPE_TIERRA),
                     (''ratio_vs_tierra'', JNum 1),
                     (''dificultad_escape'', JStr (''Dif'' @ [CHR 0xED] @ ''cil de escapar'')),
                     (''interpretacion'',
                        JStr (''Alta - gravedad superficial significativa; ''
                              @ ''Un cohete tipo Saturn V podr'' @ [CHR 0xED] @ ''a escapar'')),
                     (''contexto'', contexto)]])])"
proof -
  obtain v where v: "v_escape_kms 1 1 = Inr v" "round2 v = 11.19"
      "round2 (v / V_ESCAPE_TIERRA) = 1"
      "nivel_escape v = (''Alta - gravedad superficial significativa'',
                         ''Dif'' @ [CHR 0xED] @ ''cil de escapar'')"
      "nota_cohete v = ''Un cohete tipo Saturn V podr'' @ [CHR 0xED] @ ''a escapar''"
    using v_escape_kms_earth round2_earth round2_ratio_earth nivel_earth nota_earth by blast
  have "calcular_velocidad_escape_datos ''Tierra'' fila_tierra =
     Inr (JObj [(''status'', JStr ''success''),
                (''count'', JInt 1),
                (''data'', JArr
                   [JObj [(''pl_name'', cell_json (CStr ''Tierra'')),
                          (''pl_masse'', cell_json (CFloat 1)),
                          (''pl_rade'', cell_json (CFloat 1)),
                          (''velocidad_escape_kms'', JNum (round2 v)),
                          (''velocidad_escape_tierra'', JNum V_ESCAPE_TIERRA),
                          (''ratio_vs_tierra'', JNum (round2 (v / V_ESCAPE_TIERRA))),
                          (''dificultad_escape'', JStr (snd (nivel_escape v))),
                          (''interpretacion'',
                             JStr (fst (nivel_escape v) @ ''; '' @ nota_cohete v)),
                          (''contexto'', contexto)]])])"
    by (rule calcular_datos_numeric [where m = 1 and r = 1])
       (simp_all add: fila_tierra_def v(1))
  then show ?thesis
    by (simp add: v)
qed

text \<open>
  C2, as the code has it: the tool on the row with mass 1.0 and radius 1.0 returns a success
  envelope whose velocity field is 11.19, whose ratio is 1.0, and whose label is that of the
  tier from 11 to 30 km/s, since 11.19 is not below 11.
\<close>

theorem calcular_velocidad_escape_fila_tierra:
  "fst (calcular_velocidad_escape servicio_tierra ''Tierra'') =
     JObj [(''status'', JStr ''success''),
           (''count'', JInt 1),
           (''data'', JArr
              [JObj [(''pl_name'', JStr ''Tierra''),
                     (''pl_masse'', JNum 1),
                     (''pl_rade'', JNum 1),
                     (''velocidad_escape_kms'', JNum 11.19),
                     (''velocidad_escape_tierra'', JNum V_ESCAPE_TIERRA),
                     (''ratio_vs_tierra'', JNum 1),
                     (''dificultad_escape'', JStr (''Dif'' @ [CHR 0xED] @ ''cil de escapar'')),
                     (''interpretacion'',
                        JStr (''Alta - gravedad superficial significativa; ''
                              @ ''Un cohete tipo Saturn V podr'' @ [CHR 0xED] @ ''a escapar'')),
                     (''contexto'', contexto)]])]"
  using calcular_velocidad_escape_fila [of "''Tierra''" servicio_tierra fila_tierra "[]"]
  by (simp add: strip_Tierra servicio_tierra_def calcular_velocidad_escape_datos_tierra)

text \<open>
  C2 as stated fails: on that row the label is not the one of the tier from 5 to 11 km/s.
\<close>

theorem etiqueta_tierra_counterexample:
  "Option.bind (primer_dato (fst (calcular_velocidad_escape servicio_tierra ''Tierra'')))
     (jfield ''velocidad_escape_kms'') = Some (JNum 11.19)
   \<and> Option.bind (primer_dato (fst (calcular_velocidad_escape servicio_tierra ''Tierra'')))
       (jfield ''dificultad_escape'') = Some (JStr (''Dif'' @ [CHR 0xED] @ ''cil de escapar''))
   \<and> ''Dif'' @ [CHR 0xED] @ ''cil de escapar'' \<noteq> ''Moderadamente dif'' @ [CHR 0xED] @ ''cil''"
  using calcular_velocidad_escape_fila [of "''Tierra''" servicio_tierra fila_tierra "[]"]
  by (simp add: strip_Tierra servicio_tierra_def calcular_velocidad_escape_datos_tierra)

subsection \<open>Validation, normalisation and empty names\<close>

lemma validar_rejects:
  assumes "v \<le> 0 \<or> maximo < v"
  shows "\<exists>msg. validar_numero_positivo v nombre maximo = Inl (ValueError msg)
               \<and> contains (str_int v) msg"
proof (cases "v \<le> 0")
  case True
  then show ?thesis
    by (simp add: validar_numero_positivo_def contains_append_left contains_self)
next
  case False
  with assms have "maximo < v" by simp
  with False show ?thesis
    by (simp add: validar_numero_positivo_def contains_append_left contains_self)
qed

lemma validar_accepts:
  "1 \<le> v \<and> v \<le> maximo \<Longrightarrow> validar_numero_positivo v nombre maximo = Inr ()"
  by (simp add: validar_numero_positivo_def)

lemma error_validacion_ValueError:
  "error_validacion (ValueError msg) = JObj [(''status'', JStr ''error''), (''message'', JStr msg)]"
  by (simp add: error_validacion_def)

lemma listar_exoplanetas_mas_masivos_rejects:
  assumes "n \<le> 0 \<or> 500 < n"
  shows "\<exists>msg. listar_exoplanetas_mas_masivos svc n =
            (JObj [(''status'', JStr ''error''), (''message'', JStr msg)], [])
          \<and> contains (str_int n) msg"
  using validar_rejects [OF assms, of "''numero_planetas''"]
  by (auto simp: listar_exoplanetas_mas_masivos_def error_validacion_ValueError)

lemma listar_exoplanetas_mas_masivos_accepts:
  assumes "1 \<le> n \<and> n \<le> 500"
  shows "listar_exoplanetas_mas_masivos svc n =
     ejecutar_query_segura svc (listar_exoplanetas_mas_masivos_query n)
       (''top '' @ str_int n @ '' exoplanetas m'' @ [CHR 0xE1] @ ''s masivos'')"
  using validar_accepts [OF assms, of "''numero_planetas''"]
  by (simp add: listar_exoplanetas_mas_masivos_def)

lemma all_space_strip:
  assumes "list_all isspace s"
  shows "strip s = []"
proof -
  have d: "dropWhile isspace s = []"
    using assms by (simp add: list_all_iff dropWhile_eq_Nil_conv)
  show ?thesis unfolding strip_def d by simp
qed

lemma jfield_row_json: "jfield k (row_json r) = map_option cell_json (map_of r k)"
  by (induction r) (auto simp: row_json_def)

lemma ejecutar_rows:
  "svc query = Rows df \<Longrightarrow>
     ejecutar_query_segura svc query descripcion =
       (if df = [] then
          JObj [(''status'', JStr ''empty''),
                (''message'', JStr (''No se encontraron resultados para '' @ descripcion)),
                (''data'', JArr [])]
        else
          JObj [(''status'', JStr ''success''),
                (''count'', JInt (int (length df))),
                (''data'', JArr (to_json_records df))], [query])"
  by (simp add: ejecutar_query_segura_def)

lemma buscar_planetas_habitables_rejects:
  assumes "n \<le> 0 \<or> 100 < n"
  shows "\<exists>msg. buscar_planetas_habitables svc n =
            (JObj [(''status'', JStr ''error''), (''message'', JStr msg)], [])
          \<and> contains (str_int n) msg"
  using validar_rejects [OF assms, of "''numero_planetas''"]
  by (auto simp: buscar_planetas_habitables_def error_validacion_ValueError)

lemma buscar_planetas_habitables_accepts:
  assumes "1 \<le> n \<and> n \<le> 100"
  shows "buscar_planetas_habitables svc n =
     ejecutar_query_segura svc (buscar_planetas_habitables_query n)
       ''planetas potencialmente habitables''"
  using validar_accepts [OF assms, of "''numero_planetas''"]
  by (simp add: buscar_planetas_habitables_def Let_def)

lemma exoplanetas_mas_cercanos_rejects:
  assumes "n \<le> 0 \<or> 100 < n"
  shows "\<exists>msg. exoplanetas_mas_cercanos svc n =
            (JObj [(''status'', JStr ''error''), (''message'', JStr msg)], [])
          \<and> contains (str_int n) msg"
  using validar_rejects [OF assms, of "''numero_planetas''"]
  by (auto simp: exoplanetas_mas_cercanos_def error_validacion_ValueError)

lemma exoplanetas_mas_cercanos_accepts:
  assumes "1 \<le> n \<and> n \<le> 100"
  shows "exoplanetas_mas_cercanos svc n =
     ejecutar_query_segura svc (exoplanetas_mas_cercanos_query n)
       (''top '' @ str_int n @ '' exoplanetas m'' @ [CHR 0xE1] @ ''s cercanos'')"
  using validar_accepts [OF assms, of "''numero_planetas''"]
  by (simp add: exoplanetas_mas_cercanos_def Let_def)

lemma buscar_por_metodo_descubrimiento_rejects:
  assumes "n \<le> 0 \<or> 200 < n"
  shows "\<exists>msg. buscar_por_metodo_descubrimiento svc metodo n =
            (JObj [(''status'', JStr ''error''), (''message'', JStr msg)], [])
          \<and> contains (str_int n) msg"
  using validar_rejects [OF assms, of "''limite''"]
  by (auto simp: buscar_por_metodo_descubrimiento_def error_validacion_ValueError)

lemma buscar_por_metodo_descubrimiento_accepts:
  assumes "1 \<le> n \<and> n \<le> 200"
  shows "buscar_por_metodo_descubrimiento svc metodo n =
     ejecutar_query_segura svc (buscar_por_metodo_descubrimiento_query (replace [quote] [quote, quote] metodo) n)
       (''exoplanetas descubiertos por '' @ metodo)"
  using validar_accepts [OF assms, of "''limite''"]
  by (simp add: buscar_por_metodo_descubrimiento_def Let_def)

lemma busqueda_avanzada_rejects:
  assumes "n \<le> 0 \<or> 200 < n"
  shows "\<exists>msg. busqueda_avanzada svc repr_float masa_min masa_max periodo_min periodo_max distancia_max
          anio_descubrimiento_min metodo_opt locale_opt n =
            (JObj [(''status'', JStr ''error''), (''message'', JStr msg)], [])
          \<and> contains (str_int n) msg"
  using validar_rejects [OF assms, of "''limite''"]
  by (auto simp: busqueda_avanzada_def error_validacion_ValueError)

lemma busqueda_avanzada_accepts:
  assumes "1 \<le> n \<and> n \<le> 200"
  shows "busqueda_avanzada svc repr_float masa_min masa_max periodo_min periodo_max distancia_max
          anio_descubrimiento_min metodo_opt locale_opt n =
     ejecutar_query_segura svc (busqueda_avanzada_query (where_clause_of (busqueda_avanzada_condiciones repr_float masa_min masa_max periodo_min periodo_max distancia_max
          anio_descubrimiento_min metodo_opt locale_opt)) n)
       (''b'' @ [CHR 0xFA] @ ''squeda avanzada personalizada'')"
  using validar_accepts [OF assms, of "''limite''"]
  by (simp add: busqueda_avanzada_def Let_def)

text \<open>
  C4: an integer that is not positive or exceeds the maximum is rejected, by the validator and
  by each of the five tools that call it (maximum 500, 100, 100, 200, 200), with an error
  envelope whose message contains the decimal text of the value and with no query submitted;
  an integer from 1 to the maximum passes the validator, and the tool goes on to run its query.
\<close>

theorem validar_numero_positivo_en_herramientas:
  "(v \<le> 0 \<or> maximo < v \<longrightarrow>
      (\<exists>msg. validar_numero_positivo v nombre_parametro maximo = Inl (ValueError msg)
             \<and> contains (str_int v) msg))
   \<and> (1 \<le> w \<and> w \<le> maximo' \<longrightarrow> validar_numero_positivo w nombre_parametro maximo' = Inr ())
   \<and> (v \<le> 0 \<or> 500 < v \<longrightarrow>
      (\<exists>msg. listar_exoplanetas_mas_masivos svc v =
              (JObj [(''status'', JStr ''error''), (''message'', JStr msg)], [])
            \<and> contains (str_int v) msg))
   \<and> (1 \<le> w \<and> w \<le> 500 \<longrightarrow>
      listar_exoplanetas_mas_masivos svc w =
        ejecutar_query_segura svc (listar_exoplanetas_mas_masivos_query w)
          (''top '' @ str_int w @ '' exoplanetas m'' @ [CHR 0xE1] @ ''s masivos''))
   \<and> (v \<le> 0 \<or> 100 < v \<longrightarrow>
      (\<exists>msg. buscar_planetas_habitables svc v =
              (JObj [(''status'', JStr ''error''), (''message'', JStr msg)], [])
            \<and> contains (str_int v) msg))
   \<and> (1 \<le> w \<and> w \<le> 100 \<longrightarrow>
      buscar_planetas_habitables svc w =
        ejecutar_query_segura svc (buscar_planetas_habitables_query w)
          ''planetas potencialmente habitables'')
   \<and> (v \<le> 0 \<or> 100 < v \<longrightarrow>
      (\<exists>msg. exoplanetas_mas_cercanos svc v =
              (JObj [(''status'', JStr ''error''), (''message'', JStr msg)], [])
            \<and> contains (str_int v) msg))
   \<and> (1 \<le> w \<and> w \<le> 100 \<longrightarrow>
      exoplanetas_mas_cercanos svc w =
        ejecutar_query_segura svc (exoplanetas_mas_cercanos_query w)
          (''top '' @ str_int w @ '' exoplanetas m'' @ [CHR 0xE1] @ ''s cercanos''))
   \<and> (v \<le> 0 \<or> 200 < v \<longrightarrow>
      (\<exists>msg. buscar_por_metodo_descubrimiento svc metodo v =
              (JObj [(''status'', JStr ''error''), (''message'', JStr msg)], [])
            \<and> contains (str_int v) msg))
   \<and> (1 \<le> w \<and> w \<le> 200 \<longrightarrow>
      buscar_por_metodo_descubrimiento svc metodo w =
        ejecutar_query_segura svc (buscar_por_metodo_descubrimiento_query (replace [quote] [quote, quote] metodo) w)
          (''exoplanetas descubiertos por '' @ metodo))
   \<and> (v \<le> 0 \<or> 200 < v \<longrightarrow>
      (\<exists>msg. busqueda_avanzada svc repr_float masa_min masa_max periodo_min periodo_max distancia_max
          anio_descubrimiento_min metodo_opt locale_opt v =
              (JObj [(''status'', JStr ''error''), (''message'', JStr msg)], [])
            \<and> contains (str_int v) msg))
   \<and> (1 \<le> w \<and> w \<le> 200 \<longrightarrow>
      busqueda_avanzada svc repr_float masa_min masa_max periodo_min periodo_max distancia_max
          anio_descubrimiento_min metodo_opt locale_opt w =
        ejecutar_query_segura svc (busqueda_avanzada_query (where_clause_of (busqueda_avanzada_condiciones repr_float masa_min masa_max periodo_min periodo_max distancia_max
          anio_descubrimiento_min metodo_opt locale_opt)) w)
          (''b'' @ [CHR 0xFA] @ ''squeda avanzada personalizada''))"
  using validar_rejects [of v maximo nombre_parametro]
    validar_accepts [of w maximo' nombre_parametro]
    listar_exoplanetas_mas_masivos_rejects [of v svc]
    listar_exoplanetas_mas_masivos_accepts [of w svc]
    buscar_planetas_habitables_rejects [of v svc]
    buscar_planetas_habitables_accepts [of w svc]
    exoplanetas_mas_cercanos_rejects [of v svc]
    exoplanetas_mas_cercanos_accepts [of w svc]
    buscar_por_metodo_descubrimiento_rejects [of v svc metodo]
    buscar_por_metodo_descubrimiento_accepts [of w svc metodo]
    busqueda_avanzada_rejects [of v svc repr_float masa_min masa_max periodo_min periodo_max distancia_max
          anio_descubrimiento_min metodo_opt locale_opt]
    busqueda_avanzada_accepts [of w svc repr_float masa_min masa_max periodo_min periodo_max distancia_max
          anio_descubrimiento_min metodo_opt locale_opt]
  by blast

theorem validar_numero_positivo_en_herramientas_witness:
  "(\<exists>msg. validar_numero_positivo 501 ''limite'' 200 = Inl (ValueError msg)
           \<and> contains (str_int 501) msg)
   \<and> validar_numero_positivo 10 ''limite'' 200 = Inr ()
   \<and> (\<exists>msg. listar_exoplanetas_mas_masivos servicio_tierra 501 =
              (JObj [(''status'', JStr ''error''), (''message'', JStr msg)], [])
            \<and> contains (str_int 501) msg)
   \<and> listar_exoplanetas_mas_masivos servicio_tierra 10 =
        ejecutar_query_segura servicio_tierra (listar_exoplanetas_mas_masivos_query 10)
          (''top '' @ str_int 10 @ '' exoplanetas m'' @ [CHR 0xE1] @ ''s masivos'')
   \<and> (\<exists>msg. buscar_planetas_habitables servicio_tierra 501 =
              (JObj [(''status'', JStr ''error''), (''message'', JStr msg)], [])
            \<and> contains (str_int 501) msg)
   \<and> buscar_planetas_habitables servicio_tierra 10 =
        ejecutar_query_segura servicio_tierra (buscar_planetas_habitables_query 10)
          ''planetas potencialmente habitables''
   \<and> (\<exists>msg. exoplanetas_mas_cercanos servicio_tierra 501 =
              (JObj [(''status'', JStr ''error''), (''message'', JStr msg)], [])
            \<and> contains (str_int 501) msg)
   \<and> exoplanetas_mas_cercanos servicio_tierra 10 =
        ejecutar_query_segura servicio_tierra (exoplanetas_mas_cercanos_query 10)
          (''top '' @ str_int 10 @ '' exoplanetas m'' @ [CHR 0xE1] @ ''s cercanos'')
   \<and> (\<exists>msg. buscar_por_metodo_descubrimiento servicio_tierra ''Transit'' 501 =
              (JObj [(''status'', JStr ''error''), (''message'', JStr msg)], [])
            \<and> contains (str_int 501) msg)
   \<and> buscar_por_metodo_descubrimiento servicio_tierra ''Transit'' 10 =
        ejecutar_query_segura servicio_tierra
          (buscar_por_metodo_descubrimiento_query (replace [quote] [quote, quote] ''Transit'') 10)
          (''exoplanetas descubiertos por '' @ ''Transit'')
   \<and> (\<exists>msg. busqueda_avanzada servicio_tierra repr_ejemplo None None None None None None
                None None 501 =
              (JObj [(''status'', JStr ''error''), (''message'', JStr msg)], [])
            \<and> contains (str_int 501) msg)
   \<and> busqueda_avanzada servicio_tierra repr_ejemplo None None None None None None None None 10 =
        ejecutar_query_segura servicio_tierra
          (busqueda_avanzada_query
             (where_clause_of
                (busqueda_avanzada_condiciones repr_ejemplo None None None None None None
                   None None)) 10)
          (''b'' @ [CHR 0xFA] @ ''squeda avanzada personalizada'')"
  using validar_numero_positivo_en_herramientas
    [where v = 501 and maximo = 200 and nombre_parametro = "''limite''" and w = 10
       and maximo' = 200 and svc = servicio_tierra and metodo = "''Transit''"
       and repr_float = repr_ejemplo and masa_min = None and masa_max = None
       and periodo_min = None and periodo_max = None and distancia_max = None
       and anio_descubrimiento_min = None and metodo_opt = None and locale_opt = None]
  by simp

text \<open>
  C8: a name that is empty or has only whitespace characters makes each of the three
  name-based tools return the error envelope, with no query submitted to the service.
\<close>

theorem nombre_vacio_sin_consulta:
  "list_all isspace nombre \<longrightarrow>
     buscar_datos_exoplaneta svc nombre = (nombre_vacio, [])
     \<and> comparar_con_tierra svc nombre = (nombre_vacio, [])
     \<and> calcular_velocidad_escape svc nombre = (nombre_vacio, [])
     \<and> jfield ''status'' nombre_vacio = Some (JStr ''error'')"
  by (simp add: all_space_strip buscar_datos_exoplaneta_def comparar_con_tierra_def
      calcular_velocidad_escape_def nombre_vacio_def)

theorem nombre_vacio_sin_consulta_witness:
  "buscar_datos_exoplaneta servicio_tierra [CHR '' '', CHR 0x09, CHR 0x0A] = (nombre_vacio, [])
   \<and> comparar_con_tierra servicio_tierra [CHR '' '', CHR 0x09, CHR 0x0A] = (nombre_vacio, [])
   \<and> calcular_velocidad_escape servicio_tierra [CHR '' '', CHR 0x09, CHR 0x0A] = (nombre_vacio, [])
   \<and> jfield ''status'' nombre_vacio = Some (JStr ''error'')"
  using nombre_vacio_sin_consulta [of "[CHR '' '', CHR 0x09, CHR 0x0A]" servicio_tierra]
  by (simp add: isspace_def)

subsection \<open>Escaping of quotes\<close>

lemma line_in_join:
  assumes "contains sub l" and "l \<in> set ls"
  shows "contains sub (join sep ls)"
  using assms by (simp add: contains_join)

lemma comparar_con_tierra_query_literal:
  "contains (''WHERE pl_name = '' @ [quote] @ e @ [quote]) (comparar_con_tierra_query e)"
  unfolding comparar_con_tierra_query_def
  by (rule line_in_join [where l = "''    '' @ (''WHERE pl_name = '' @ [quote] @ e @ [quote])"])
     (rule contains_suffix, simp)

lemma buscar_datos_exoplaneta_query_literal:
  "contains (''WHERE pl_name = '' @ [quote] @ e @ [quote]) (buscar_datos_exoplaneta_query e)"
  unfolding buscar_datos_exoplaneta_query_def
  by (rule line_in_join [where l = "''    '' @ (''WHERE pl_name = '' @ [quote] @ e @ [quote])"])
     (rule contains_suffix, simp)

lemma calcular_velocidad_escape_query_literal:
  "contains (''WHERE pl_name = '' @ [quote] @ e @ [quote]) (calcular_velocidad_escape_query e)"
  unfolding calcular_velocidad_escape_query_def
  by (rule line_in_join [where l = "''    '' @ (''WHERE pl_name = '' @ [quote] @ e @ [quote])"])
     (rule contains_suffix, simp)

lemma buscar_por_metodo_descubrimiento_query_literal:
  "contains (''WHERE discoverymethod = '' @ [quote] @ e @ [quote])
     (buscar_por_metodo_descubrimiento_query e limite)"
  unfolding buscar_por_metodo_descubrimiento_query_def
  by (rule line_in_join
        [where l = "''        '' @ (''WHERE discoverymethod = '' @ [quote] @ e @ [quote])"])
     (rule contains_suffix, simp)

lemma busqueda_avanzada_query_where:
  assumes "contains sub where_clause"
  shows "contains sub (busqueda_avanzada_query where_clause limite)"
proof -
  have "contains sub (''        '' @ where_clause)"
    using assms by (rule contains_append_left)
  then show ?thesis
    unfolding busqueda_avanzada_query_def
    by (rule line_in_join) simp
qed

lemma where_clause_of_condicion:
  assumes "c \<in> set condiciones"
  shows "contains c (where_clause_of condiciones)"
proof -
  have "condiciones \<noteq> []" using assms by auto
  moreover have "contains c (join '' AND '' condiciones)"
    using assms by (rule contains_join) (rule contains_self)
  ultimately show ?thesis
    by (simp add: where_clause_of_def)
qed

lemma metodo_en_condiciones:
  "m \<noteq> [] \<Longrightarrow>
     ''discoverymethod = '' @ [quote] @ replace [quote] [quote, quote] m @ [quote]
       \<in> set (busqueda_avanzada_condiciones repr_float masa_min masa_max periodo_min periodo_max
                 distancia_max anio_descubrimiento_min (Some m) locale_opt)"
  by (simp add: busqueda_avanzada_condiciones_def)

lemma locale_en_condiciones:
  "l \<noteq> [] \<Longrightarrow>
     ''disc_locale = '' @ [quote] @ replace [quote] [quote, quote] l @ [quote]
       \<in> set (busqueda_avanzada_condiciones repr_float masa_min masa_max periodo_min periodo_max
                 distancia_max anio_descubrimiento_min metodo_opt (Some l))"
  by (simp add: busqueda_avanzada_condiciones_def)

lemma snd_ejecutar_query_segura: "snd (ejecutar_query_segura svc query descripcion) = [query]"
  by (simp add: ejecutar_query_segura_def)

lemma consultas_nombre:
  assumes "strip nombre \<noteq> []"
  shows "snd (buscar_datos_exoplaneta svc nombre) =
           [buscar_datos_exoplaneta_query (replace [quote] [quote, quote] nombre)]"
    and "snd (comparar_con_tierra svc nombre) =
           [comparar_con_tierra_query (replace [quote] [quote, quote] nombre)]"
    and "snd (calcular_velocidad_escape svc nombre) =
           [calcular_velocidad_escape_query (replace [quote] [quote, quote] nombre)]"
  using assms strip_nonempty [OF assms]
  by (simp_all add: buscar_datos_exoplaneta_def comparar_con_tierra_def
      calcular_velocidad_escape_def snd_ejecutar_query_segura Let_def)

lemma consulta_metodo:
  assumes "1 \<le> limite \<and> limite \<le> 200"
  shows "snd (buscar_por_metodo_descubrimiento svc metodo limite) =
           [buscar_por_metodo_descubrimiento_query (replace [quote] [quote, quote] metodo) limite]"
  by (simp add: buscar_por_metodo_descubrimiento_accepts [OF assms] snd_ejecutar_query_segura)

lemma consulta_busqueda_avanzada:
  assumes "1 \<le> limite \<and> limite \<le> 200"
  shows "snd (busqueda_avanzada svc repr_float masa_min masa_max periodo_min periodo_max
                distancia_max anio_descubrimiento_min metodo_opt locale_opt limite) =
           [busqueda_avanzada_query
              (where_clause_of
                 (busqueda_avanzada_condiciones repr_float masa_min masa_max periodo_min
                    periodo_max distancia_max anio_descubrimiento_min metodo_opt locale_opt))
              limite]"
  by (simp add: busqueda_avanzada_accepts [OF assms] snd_ejecutar_query_segura)

text \<open>
  C1: the escaping \<open>replace("'", "''")\<close> writes every quote twice and leaves every other
  character as it is, and replacing each pair of quotes by one quote gives the original string
  back, for every string. Each of the six interpolated parameters reaches its query escaped
  and between quotes: the name of the three name-based tools, the method of
  \<open>buscar_por_metodo_descubrimiento\<close>, and the method and the locale of
  \<open>busqueda_avanzada\<close>.
\<close>

theorem comillas_duplicadas_en_consultas:
  "replace [quote] [quote, quote] s =
     concat (map (\<lambda>c. if c = quote then [quote, quote] else [c]) s)
   \<and> replace [quote, quote] [quote] (replace [quote] [quote, quote] s) = s
   \<and> (strip nombre \<noteq> [] \<longrightarrow>
        (\<exists>q. snd (buscar_datos_exoplaneta svc nombre) = [q]
           \<and> contains (''WHERE pl_name = '' @ [quote]
                         @ replace [quote] [quote, quote] nombre @ [quote]) q)
      \<and> (\<exists>q. snd (comparar_con_tierra svc nombre) = [q]
           \<and> contains (''WHERE pl_name = '' @ [quote]
                         @ replace [quote] [quote, quote] nombre @ [quote]) q)
      \<and> (\<exists>q. snd (calcular_velocidad_escape svc nombre) = [q]
           \<and> contains (''WHERE pl_name = '' @ [quote]
                         @ replace [quote] [quote, quote] nombre @ [quote]) q))
   \<and> (1 \<le> limite \<and> limite \<le> 200 \<longrightarrow>
        (\<exists>q. snd (buscar_por_metodo_descubrimiento svc metodo limite) = [q]
           \<and> contains (''WHERE discoverymethod = '' @ [quote]
                         @ replace [quote] [quote, quote] metodo @ [quote]) q))
   \<and> (1 \<le> limite \<and> limite \<le> 200 \<and> m \<noteq> [] \<and> l \<noteq> [] \<longrightarrow>
        (\<exists>q. snd (busqueda_avanzada svc repr_float masa_min masa_max periodo_min periodo_max
                      distancia_max anio_descubrimiento_min (Some m) (Some l) limite) = [q]
           \<and> contains (''discoverymethod = '' @ [quote]
                         @ replace [quote] [quote, quote] m @ [quote]) q
           \<and> contains (''disc_locale = '' @ [quote]
                         @ replace [quote] [quote, quote] l @ [quote]) q))"
proof (intro conjI impI)
  show "replace [quote] [quote, quote] s =
          concat (map (\<lambda>c. if c = quote then [quote, quote] else [c]) s)"
    by (rule replace_quote_concat)
  show "replace [quote, quote] [quote] (replace [quote] [quote, quote] s) = s"
    by (rule replace_roundtrip)
next
  assume h: "strip nombre \<noteq> []"
  show "\<exists>q. snd (buscar_datos_exoplaneta svc nombre) = [q]
           \<and> contains (''WHERE pl_name = '' @ [quote]
                         @ replace [quote] [quote, quote] nombre @ [quote]) q"
    using consultas_nombre(1) [OF h] buscar_datos_exoplaneta_query_literal by blast
  show "\<exists>q. snd (comparar_con_tierra svc nombre) = [q]
           \<and> contains (''WHERE pl_name = '' @ [quote]
                         @ replace [quote] [quote, quote] nombre @ [quote]) q"
    using consultas_nombre(2) [OF h] comparar_con_tierra_query_literal by blast
  show "\<exists>q. snd (calcular_velocidad_escape svc nombre) = [q]
           \<and> contains (''WHERE pl_name = '' @ [quote]
                         @ replace [quote] [quote, quote] nombre @ [quote]) q"
    using consultas_nombre(3) [OF h] calcular_velocidad_escape_query_literal by blast
next
  assume h: "1 \<le> limite \<and> limite \<le> 200"
  show "\<exists>q. snd (buscar_por_metodo_descubrimiento svc metodo limite) = [q]
           \<and> contains (''WHERE discoverymethod = '' @ [quote]
                         @ replace [quote] [quote, quote] metodo @ [quote]) q"
    using consulta_metodo [OF h] buscar_por_metodo_descubrimiento_query_literal by blast
next
  assume h: "1 \<le> limite \<and> limite \<le> 200 \<and> m \<noteq> [] \<and> l \<noteq> []"
  then have lim: "1 \<le> limite \<and> limite \<le> 200" and m: "m \<noteq> []" and l: "l \<noteq> []"
    by simp_all
  show "\<exists>q. snd (busqueda_avanzada svc repr_float masa_min masa_max periodo_min periodo_max
                      distancia_max anio_descubrimiento_min (Some m) (Some l) limite) = [q]
           \<and> contains (''discoverymethod = '' @ [quote]
                         @ replace [quote] [quote, quote] m @ [quote]) q
           \<and> contains (''disc_locale = '' @ [quote]
                         @ replace [quote] [quote, quote] l @ [quote]) q"
    by (intro exI conjI, rule consulta_busqueda_avanzada [OF lim])
       (rule busqueda_avanzada_query_where, rule where_clause_of_condicion,
        rule metodo_en_condiciones [OF m],
        rule busqueda_avanzada_query_where, rule where_clause_of_condicion,
        rule locale_en_condiciones [OF l])
qed

lemma strip_nombre_con_comilla: "strip nombre_con_comilla \<noteq> []"
  by (simp add: nombre_con_comilla_def strip_def isspace_def quote_def)

theorem comillas_duplicadas_en_consultas_witness:
  "replace [quote] [quote, quote] nombre_con_comilla = ''O'' @ [quote, quote] @ ''x''
   \<and> replace [quote, quote] [quote] (replace [quote] [quote, quote] nombre_con_comilla)
       = nombre_con_comilla
   \<and> (\<exists>q. snd (buscar_datos_exoplaneta servicio_tierra nombre_con_comilla) = [q]
           \<and> contains (''WHERE pl_name = '' @ [quote]
                         @ replace [quote] [quote, quote] nombre_con_comilla @ [quote]) q)
   \<and> (\<exists>q. snd (comparar_con_tierra servicio_tierra nombre_con_comilla) = [q]
           \<and> contains (''WHERE pl_name = '' @ [quote]
                         @ replace [quote] [quote, quote] nombre_con_comilla @ [quote]) q)
   \<and> (\<exists>q. snd (calcular_velocidad_escape servicio_tierra nombre_con_comilla) = [q]
           \<and> contains (''WHERE pl_name = '' @ [quote]
                         @ replace [quote] [quote, quote] nombre_con_comilla @ [quote]) q)
   \<and> (\<exists>q. snd (buscar_por_metodo_descubrimiento servicio_tierra nombre_con_comilla 10) = [q]
           \<and> contains (''WHERE discoverymethod = '' @ [quote]
                         @ replace [quote] [quote, quote] nombre_con_comilla @ [quote]) q)
   \<and> (\<exists>q. snd (busqueda_avanzada servicio_tierra repr_ejemplo None None None None None None
                      (Some nombre_con_comilla) (Some nombre_con_comilla) 10) = [q]
           \<and> contains (''discoverymethod = '' @ [quote]
                         @ replace [quote] [quote, quote] nombre_con_comilla @ [quote]) q
           \<and> contains (''disc_locale = '' @ [quote]
                         @ replace [quote] [quote, quote] nombre_con_comilla @ [quote]) q)"
proof -
  have ne: "nombre_con_comilla \<noteq> []" and lim: "(1::int) \<le> 10 \<and> (10::int) \<le> 200"
    by (simp_all add: nombre_con_comilla_def)
  have e: "concat (map (\<lambda>c. if c = quote then [quote, quote] else [c]) nombre_con_comilla)
             = ''O'' @ [quote, quote] @ ''x''"
    by (simp add: nombre_con_comilla_def quote_def)
  show ?thesis
    using comillas_duplicadas_en_consultas
      [where s = nombre_con_comilla and nombre = nombre_con_comilla and svc = servicio_tierra
         and limite = 10 and metodo = nombre_con_comilla and m = nombre_con_comilla
         and l = nombre_con_comilla and repr_float = repr_ejemplo and masa_min = None
         and masa_max = None and periodo_min = None and periodo_max = None
         and distancia_max = None and anio_descubrimiento_min = None, unfolded e]
      strip_nombre_con_comilla ne lim
    by blast
qed

subsection \<open>Optional filters\<close>





























subsection \<open>\<open>comparar_con_tierra\<close>: the mass label\<close>

lemma try_bind_Inr: "try_bind (Inr x) f = f x"
  by (simp add: try_bind_def)

lemma try_bind_Inl: "try_bind (Inl e) f = Inl e"
  by (simp add: try_bind_def)

lemma interpretacion_masa_Missing: "interpretacion_masa Missing = Inr []"
  by (simp add: interpretacion_masa_def)

lemma interpretacion_masa_CFloat:
  "interpretacion_masa (CFloat m) =
     Inr [if m < 0.5 then ''Planeta muy ligero (posiblemente rocoso peque'' @ [CHR 0xF1] @ ''o)''
          else if m \<le> 2.0 then ''Masa similar a la Tierra (super-Tierra)''
          else if m \<le> 10.0 then ''Mini-Neptuno''
          else ''Gigante gaseoso'']"
  by (simp add: interpretacion_masa_def try_bind_def)

lemma periodo_no_falla:
  assumes "\<forall>s. p \<noteq> CStr s"
  shows "\<exists>y. (if p \<noteq> Missing then
            try_bind (operand msg_truediv p) (\<lambda>q.
              Inr (AList.update anios_terrestres (CFloat (round2 (q / PERIODO_TIERRA_DIAS))) data))
          else Inr (AList.update anios_terrestres Missing data))
        = Inr (AList.update anios_terrestres y data)"
  using assms by (cases p) (auto simp add: try_bind_def)

lemma map_of_update_anios:
  "k \<noteq> anios_terrestres \<Longrightarrow> map_of (AList.update anios_terrestres y data) k = map_of data k"
  by (simp add: update_conv')

lemma comparar_con_tierra_datos_interpretacion:
  assumes "map_of data ''pl_orbper'' = Some p" and "\<forall>s. p \<noteq> CStr s"
    and "map_of data ''pl_masse'' = Some a" and "interpretacion_masa a = Inr notas"
  shows "\<exists>y. comparar_con_tierra_datos data =
           Inr (AList.update ''interpretacion''
                  (if notas \<noteq> [] then CStr (join ''; '' notas) else Missing)
                  (AList.update anios_terrestres y data))"
proof -
  obtain y where y: "(if p \<noteq> Missing then
            try_bind (operand msg_truediv p) (\<lambda>q.
              Inr (AList.update anios_terrestres (CFloat (round2 (q / PERIODO_TIERRA_DIAS))) data))
          else Inr (AList.update anios_terrestres Missing data))
        = Inr (AList.update anios_terrestres y data)"
    using periodo_no_falla [OF assms(2)] by blast
  have "''pl_masse'' \<noteq> anios_terrestres"
    by (simp add: anios_terrestres_def)
  then have "map_of (AList.update anios_terrestres y data) ''pl_masse'' = map_of data ''pl_masse''"
    by (rule map_of_update_anios)
  then have m: "map_of (AList.update anios_terrestres y data) ''pl_masse'' = Some a"
    using assms(3) by (rule trans)
  have "comparar_con_tierra_datos data =
           Inr (AList.update ''interpretacion''
                  (if notas \<noteq> [] then CStr (join ''; '' notas) else Missing)
                  (AList.update anios_terrestres y data))"
    unfolding comparar_con_tierra_datos_def
    by (simp only: getitem_def assms(1) option.case try_bind_Inr y m assms(4))
  then show ?thesis by blast
qed

lemma jfield_interpretacion:
  "jfield ''interpretacion'' (row_json (AList.update ''interpretacion'' x data)) = Some (cell_json x)"
  by (simp add: jfield_row_json update_conv')

lemma comparar_con_tierra_fila:
  assumes "strip nombre \<noteq> []"
    and "svc (comparar_con_tierra_query (replace [quote] [quote, quote] nombre)) = Rows (fila # resto)"
  shows "fst (comparar_con_tierra svc nombre) =
           (case comparar_con_tierra_datos fila of
              Inl e \<Rightarrow> error_inesperado e
            | Inr data \<Rightarrow>
                JObj [(''status'', JStr ''success''), (''count'', JInt 1),
                      (''data'', JArr [row_json data])])"
  using assms strip_nonempty [OF assms(1)] by (simp add: comparar_con_tierra_def Let_def)

lemma comparar_con_tierra_interpretacion:
  assumes "strip nombre \<noteq> []"
    and "svc (comparar_con_tierra_query (replace [quote] [quote, quote] nombre)) = Rows (fila # resto)"
    and "map_of fila ''pl_orbper'' = Some p" and "\<forall>s. p \<noteq> CStr s"
    and "map_of fila ''pl_masse'' = Some a" and "interpretacion_masa a = Inr notas"
  shows "\<exists>d. fst (comparar_con_tierra svc nombre) =
               JObj [(''status'', JStr ''success''), (''count'', JInt 1), (''data'', JArr [d])]
             \<and> jfield ''interpretacion'' d =
                 Some (cell_json (if notas \<noteq> [] then CStr (join ''; '' notas) else Missing))"
proof -
  obtain y where "comparar_con_tierra_datos fila =
           Inr (AList.update ''interpretacion''
                  (if notas \<noteq> [] then CStr (join ''; '' notas) else Missing)
                  (AList.update anios_terrestres y fila))"
    using comparar_con_tierra_datos_interpretacion [OF assms(3-6)] by blast
  then have "fst (comparar_con_tierra svc nombre) =
      JObj [(''status'', JStr ''success''), (''count'', JInt 1),
            (''data'', JArr [row_json (AList.update ''interpretacion''
                  (if notas \<noteq> [] then CStr (join ''; '' notas) else Missing)
                  (AList.update anios_terrestres y fila))])]"
    using comparar_con_tierra_fila [of nombre svc fila resto] assms(1,2) by simp
  then show ?thesis
    using jfield_interpretacion by blast
qed

text \<open>
  C5: \<open>comparar_con_tierra\<close> on a first row whose period is not a string. With the mass a
  float \<open>m\<close>, the result is a success envelope with one data element whose
  \<open>interpretacion\<close> is the very-light label when \<open>m < 0.5\<close>, the Earth-like label when
  \<open>0.5 \<le> m \<le> 2.0\<close>, the mini-Neptune label when \<open>2.0 < m \<le> 10.0\<close> and the gas-giant
  label when \<open>10.0 < m\<close>; the four ranges cover the reals and do not overlap. With the mass
  missing, \<open>interpretacion\<close> is present and null.
\<close>

theorem clasificacion_masa:
  "(strip nombre \<noteq> []
      \<and> svc (comparar_con_tierra_query (replace [quote] [quote, quote] nombre)) = Rows (fila # resto)
      \<and> map_of fila ''pl_orbper'' = Some p \<and> (\<forall>s. p \<noteq> CStr s)
      \<and> map_of fila ''pl_masse'' = Some (CFloat m)
    \<longrightarrow> (\<exists>d. fst (comparar_con_tierra svc nombre) =
               JObj [(''status'', JStr ''success''), (''count'', JInt 1), (''data'', JArr [d])]
             \<and> (m < 0.5 \<longrightarrow> jfield ''interpretacion'' d = Some (JStr (''Planeta muy ligero (posiblemente rocoso peque'' @ [CHR 0xF1] @ ''o)'')))
             \<and> (0.5 \<le> m \<and> m \<le> 2.0 \<longrightarrow> jfield ''interpretacion'' d = Some (JStr ''Masa similar a la Tierra (super-Tierra)''))
             \<and> (2.0 < m \<and> m \<le> 10.0 \<longrightarrow> jfield ''interpretacion'' d = Some (JStr ''Mini-Neptuno''))
             \<and> (10.0 < m \<longrightarrow> jfield ''interpretacion'' d = Some (JStr ''Gigante gaseoso''))))
   \<and> (strip nombre \<noteq> []
      \<and> svc (comparar_con_tierra_query (replace [quote] [quote, quote] nombre)) = Rows (fila # resto)
      \<and> map_of fila ''pl_orbper'' = Some p \<and> (\<forall>s. p \<noteq> CStr s)
      \<and> map_of fila ''pl_masse'' = Some Missing
    \<longrightarrow> (\<exists>d. fst (comparar_con_tierra svc nombre) =
               JObj [(''status'', JStr ''success''), (''count'', JInt 1), (''data'', JArr [d])]
             \<and> jfield ''interpretacion'' d = Some JNull))"
proof (intro conjI impI)
  assume h: "strip nombre \<noteq> []
      \<and> svc (comparar_con_tierra_query (replace [quote] [quote, quote] nombre)) = Rows (fila # resto)
      \<and> map_of fila ''pl_orbper'' = Some p \<and> (\<forall>s. p \<noteq> CStr s)
      \<and> map_of fila ''pl_masse'' = Some (CFloat m)"
  then obtain d where d: "fst (comparar_con_tierra svc nombre) =
               JObj [(''status'', JStr ''success''), (''count'', JInt 1), (''data'', JArr [d])]"
    "jfield ''interpretacion'' d =
       Some (cell_json (if [if m < 0.5 then (''Planeta muy ligero (posiblemente rocoso peque'' @ [CHR 0xF1] @ ''o)'')
          else if m \<le> 2.0 then ''Masa similar a la Tierra (super-Tierra)''
          else if m \<le> 10.0 then ''Mini-Neptuno''
          else ''Gigante gaseoso''] \<noteq> [] then CStr (join ''; '' [if m < 0.5 then (''Planeta muy ligero (posiblemente rocoso peque'' @ [CHR 0xF1] @ ''o)'')
          else if m \<le> 2.0 then ''Masa similar a la Tierra (super-Tierra)''
          else if m \<le> 10.0 then ''Mini-Neptuno''
          else ''Gigante gaseoso'']) else Missing))"
    using comparar_con_tierra_interpretacion [OF _ _ _ _ _ interpretacion_masa_CFloat] by blast
  from d(2) have "(m < 0.5 \<longrightarrow> jfield ''interpretacion'' d = Some (JStr (''Planeta muy ligero (posiblemente rocoso peque'' @ [CHR 0xF1] @ ''o)'')))
             \<and> (0.5 \<le> m \<and> m \<le> 2.0 \<longrightarrow> jfield ''interpretacion'' d = Some (JStr ''Masa similar a la Tierra (super-Tierra)''))
             \<and> (2.0 < m \<and> m \<le> 10.0 \<longrightarrow> jfield ''interpretacion'' d = Some (JStr ''Mini-Neptuno''))
             \<and> (10.0 < m \<longrightarrow> jfield ''interpretacion'' d = Some (JStr ''Gigante gaseoso''))"
    by simp
  with d(1) show "\<exists>d. fst (comparar_con_tierra svc nombre) =
               JObj [(''status'', JStr ''success''), (''count'', JInt 1), (''data'', JArr [d])]
             \<and> (m < 0.5 \<longrightarrow> jfield ''interpretacion'' d = Some (JStr (''Planeta muy ligero (posiblemente rocoso peque'' @ [CHR 0xF1] @ ''o)'')))
             \<and> (0.5 \<le> m \<and> m \<le> 2.0 \<longrightarrow> jfield ''interpretacion'' d = Some (JStr ''Masa similar a la Tierra (super-Tierra)''))
             \<and> (2.0 < m \<and> m \<le> 10.0 \<longrightarrow> jfield ''interpretacion'' d = Some (JStr ''Mini-Neptuno''))
             \<and> (10.0 < m \<longrightarrow> jfield ''interpretacion'' d = Some (JStr ''Gigante gaseoso''))"
    by blast
next
  assume h: "strip nombre \<noteq> []
      \<and> svc (comparar_con_tierra_query (replace [quote] [quote, quote] nombre)) = Rows (fila # resto)
      \<and> map_of fila ''pl_orbper'' = Some p \<and> (\<forall>s. p \<noteq> CStr s)
      \<and> map_of fila ''pl_masse'' = Some Missing"
  then show "\<exists>d. fst (comparar_con_tierra svc nombre) =
               JObj [(''status'', JStr ''success''), (''count'', JInt 1), (''data'', JArr [d])]
             \<and> jfield ''interpretacion'' d = Some JNull"
    using comparar_con_tierra_interpretacion [OF _ _ _ _ _ interpretacion_masa_Missing]
    by simp
qed

theorem clasificacion_masa_witness:
  "(\<exists>d. fst (comparar_con_tierra (servicio_de [fila_masa (CFloat 0.4)]) ''Kepler-442 b'') =
            JObj [(''status'', JStr ''success''), (''count'', JInt 1), (''data'', JArr [d])]
          \<and> jfield ''interpretacion'' d = Some (JStr (''Planeta muy ligero (posiblemente rocoso peque'' @ [CHR 0xF1] @ ''o)'')))
   \<and> (\<exists>d. fst (comparar_con_tierra (servicio_de [fila_masa (CFloat 0.5)]) ''Kepler-442 b'') =
            JObj [(''status'', JStr ''success''), (''count'', JInt 1), (''data'', JArr [d])]
          \<and> jfield ''interpretacion'' d = Some (JStr ''Masa similar a la Tierra (super-Tierra)''))
   \<and> (\<exists>d. fst (comparar_con_tierra (servicio_de [fila_masa (CFloat 10.0)]) ''Kepler-442 b'') =
            JObj [(''status'', JStr ''success''), (''count'', JInt 1), (''data'', JArr [d])]
          \<and> jfield ''interpretacion'' d = Some (JStr ''Mini-Neptuno''))
   \<and> (\<exists>d. fst (comparar_con_tierra (servicio_de [fila_masa (CFloat 10.01)]) ''Kepler-442 b'') =
            JObj [(''status'', JStr ''success''), (''count'', JInt 1), (''data'', JArr [d])]
          \<and> jfield ''interpretacion'' d = Some (JStr ''Gigante gaseoso''))
   \<and> (\<exists>d. fst (comparar_con_tierra (servicio_de [fila_masa Missing]) ''Kepler-442 b'') =
            JObj [(''status'', JStr ''success''), (''count'', JInt 1), (''data'', JArr [d])]
          \<and> jfield ''interpretacion'' d = Some JNull)"
proof -
  have s: "strip ''Kepler-442 b'' \<noteq> []"
    by (simp add: strip_def isspace_def)
  have q: "\<And>a. servicio_de [fila_masa a]
             (comparar_con_tierra_query (replace [quote] [quote, quote] ''Kepler-442 b''))
           = Rows (fila_masa a # [])"
    by (simp add: servicio_de_def)
  have o: "\<And>a. map_of (fila_masa a) ''pl_orbper'' = Some (CFloat 730.5)"
    and m: "\<And>a. map_of (fila_masa a) ''pl_masse'' = Some a"
    by (simp_all add: fila_masa_def)
  show ?thesis
    using
      clasificacion_masa
        [where nombre = "''Kepler-442 b''" and svc = "servicio_de [fila_masa (CFloat 0.4)]"
           and fila = "fila_masa (CFloat 0.4)" and resto = "[]" and p = "CFloat 730.5" and m = "0.4"]
      clasificacion_masa
        [where nombre = "''Kepler-442 b''" and svc = "servicio_de [fila_masa (CFloat 0.5)]"
           and fila = "fila_masa (CFloat 0.5)" and resto = "[]" and p = "CFloat 730.5" and m = "0.5"]
      clasificacion_masa
        [where nombre = "''Kepler-442 b''" and svc = "servicio_de [fila_masa (CFloat 10.0)]"
           and fila = "fila_masa (CFloat 10.0)" and resto = "[]" and p = "CFloat 730.5" and m = "10.0"]
      clasificacion_masa
        [where nombre = "''Kepler-442 b''" and svc = "servicio_de [fila_masa (CFloat 10.01)]"
           and fila = "fila_masa (CFloat 10.01)" and resto = "[]" and p = "CFloat 730.5" and m = "10.01"]
      clasificacion_masa
        [where nombre = "''Kepler-442 b''" and svc = "servicio_de [fila_masa Missing]"
           and fila = "fila_masa Missing" and resto = "[]" and p = "CFloat 730.5"]
      s q o m
    by simp
qed

subsection \<open>\<open>calcular_velocidad_escape\<close>: missing data, and the first row\<close>

lemma calcular_datos_missing:
  assumes "map_of fila ''pl_masse'' = Some a" and "map_of fila ''pl_rade'' = Some b"
    and "a = Missing \<or> b = Missing"
  shows "calcular_velocidad_escape_datos nombre fila = Inr (sin_masa_o_radio nombre)"
  using assms
  by (auto simp add: calcular_velocidad_escape_datos_def getitem_def try_bind_Inr)

lemma calcular_datos_shape:
  "calcular_velocidad_escape_datos nombre fila = Inr envelope \<Longrightarrow>
     envelope = sin_masa_o_radio nombre
     \<or> (\<exists>d. envelope = JObj [(''status'', JStr ''success''), (''count'', JInt 1),
                            (''data'', JArr [d])])"
  by (auto simp add: calcular_velocidad_escape_datos_def getitem_def try_bind_def Let_def
      split: option.splits sum.splits if_splits prod.splits)

lemma calcular_datos_present:
  assumes "map_of fila ''pl_masse'' = Some a" and "map_of fila ''pl_rade'' = Some b"
    and "a \<noteq> Missing" and "b \<noteq> Missing"
  shows "calcular_velocidad_escape_datos nombre fila \<noteq> Inr (sin_masa_o_radio nombre)"
  using assms
  by (auto simp add: calcular_velocidad_escape_datos_def getitem_def try_bind_def Let_def
      sin_masa_o_radio_def split: option.splits sum.splits if_splits prod.splits)

lemma status_sin_masa_o_radio:
  "jfield ''status'' (sin_masa_o_radio nombre) = Some (JStr ''error'')"
  "jfield ''data'' (sin_masa_o_radio nombre) = Some (JArr [])"
  by (simp_all add: sin_masa_o_radio_def)

lemma message_sin_masa_o_radio:
  "\<exists>msg. jfield ''message'' (sin_masa_o_radio nombre) = Some (JStr msg)
         \<and> contains ''masa o radio'' msg"
proof -
  have "contains ''masa o radio''
          ((''El exoplaneta '' @ [quote] @ nombre @ [quote] @ '' no tiene datos de '')
           @ ''masa o radio'' @ '' necesarios para calcular velocidad de escape'')"
    by (rule contains_mid)
  then show ?thesis by (simp add: sin_masa_o_radio_def del: contains.simps)
qed

lemma calcular_status:
  "\<exists>s. jfield ''status'' (fst (calcular_velocidad_escape svc nombre)) = Some (JStr s)
       \<and> (s = ''success'' \<or> s = ''error'' \<or> s = ''empty'')"
proof (cases "nombre = [] \<or> strip nombre = []")
  case True
  then show ?thesis by (auto simp add: calcular_velocidad_escape_def nombre_vacio_def)
next
  case False
  show ?thesis
  proof (cases "svc (calcular_velocidad_escape_query (replace [quote] [quote, quote] nombre))")
    case (Raises e)
    with False show ?thesis
      by (simp add: calcular_velocidad_escape_def Let_def error_inesperado_def)
  next
    case (Rows df)
    show ?thesis
    proof (cases df)
      case Nil
      with False Rows show ?thesis
        by (simp add: calcular_velocidad_escape_def Let_def no_encontrado_def)
    next
      case (Cons fila resto)
      show ?thesis
      proof (cases "calcular_velocidad_escape_datos nombre fila")
        case (Inl e)
        with False Rows Cons show ?thesis
          by (simp add: calcular_velocidad_escape_def Let_def error_inesperado_def)
      next
        case (Inr envelope)
        from calcular_datos_shape [OF Inr] have
          "jfield ''status'' envelope = Some (JStr ''error'')
           \<or> jfield ''status'' envelope = Some (JStr ''success'')"
          by (auto simp add: sin_masa_o_radio_def)
        with False Rows Cons Inr show ?thesis
          by (auto simp add: calcular_velocidad_escape_def Let_def)
      qed
    qed
  qed
qed

lemma error_inesperado_no_es_sin_masa: "error_inesperado e \<noteq> sin_masa_o_radio nombre"
  by (simp add: error_inesperado_def sin_masa_o_radio_def)

lemma calcular_sin_datos:
  assumes "strip nombre \<noteq> []"
    and "svc (calcular_velocidad_escape_query (replace [quote] [quote, quote] nombre))
           = Rows (fila # resto)"
    and "map_of fila ''pl_masse'' = Some a" and "map_of fila ''pl_rade'' = Some b"
    and "a = Missing \<or> b = Missing"
  shows "fst (calcular_velocidad_escape svc nombre) = sin_masa_o_radio nombre"
  using calcular_velocidad_escape_fila [of nombre svc fila resto] assms(1,2)
    calcular_datos_missing [OF assms(3-5), of nombre]
  by simp

lemma calcular_con_datos:
  assumes "strip nombre \<noteq> []"
    and "svc (calcular_velocidad_escape_query (replace [quote] [quote, quote] nombre))
           = Rows (fila # resto)"
    and "map_of fila ''pl_masse'' = Some a" and "map_of fila ''pl_rade'' = Some b"
    and "a \<noteq> Missing" and "b \<noteq> Missing"
  shows "fst (calcular_velocidad_escape svc nombre) \<noteq> sin_masa_o_radio nombre"
  using calcular_velocidad_escape_fila [of nombre svc fila resto] assms(1,2)
    calcular_datos_present [OF assms(3-6), of nombre] error_inesperado_no_es_sin_masa
  by (auto split: sum.splits)

lemma calcular_velocidad:
  assumes "strip nombre \<noteq> []"
    and "svc (calcular_velocidad_escape_query (replace [quote] [quote, quote] nombre))
           = Rows (fila # resto)"
    and "map_of fila ''pl_masse'' = Some (CFloat m)" and "map_of fila ''pl_rade'' = Some (CFloat r)"
    and "0 \<le> m" and "0 < r" and "map_of fila ''pl_name'' = Some n"
  shows "\<exists>d. fst (calcular_velocidad_escape svc nombre) =
               JObj [(''status'', JStr ''success''), (''count'', JInt 1), (''data'', JArr [d])]
             \<and> jfield ''velocidad_escape_kms'' d =
                 Some (JNum (round2 (sqrt (2 * G * (m * MASA_TIERRA_KG) / (r * RADIO_TIERRA_M))
                                     / 1000)))"
proof -
  let ?v = "sqrt (2 * G * (m * MASA_TIERRA_KG) / (r * RADIO_TIERRA_M)) / 1000"
  have "calcular_velocidad_escape_datos nombre fila =
     Inr (JObj [(''status'', JStr ''success''),
                (''count'', JInt 1),
                (''data'', JArr
                   [JObj [(''pl_name'', cell_json n),
                          (''pl_masse'', cell_json (CFloat m)),
                          (''pl_rade'', cell_json (CFloat r)),
                          (''velocidad_escape_kms'', JNum (round2 ?v)),
                          (''velocidad_escape_tierra'', JNum V_ESCAPE_TIERRA),
                          (''ratio_vs_tierra'', JNum (round2 (?v / V_ESCAPE_TIERRA))),
                          (''dificultad_escape'', JStr (snd (nivel_escape ?v))),
                          (''interpretacion'',
                             JStr (fst (nivel_escape ?v) @ ''; '' @ nota_cohete ?v)),
                          (''contexto'', contexto)]])])"
    using assms(3,4,7) v_escape_kms_pos [OF assms(5,6)]
    by (intro calcular_datos_numeric [where m = m and r = r]) simp_all
  then have "fst (calcular_velocidad_escape svc nombre) =
     JObj [(''status'', JStr ''success''),
                (''count'', JInt 1),
                (''data'', JArr
                   [JObj [(''pl_name'', cell_json n),
                          (''pl_masse'', cell_json (CFloat m)),
                          (''pl_rade'', cell_json (CFloat r)),
                          (''velocidad_escape_kms'', JNum (round2 ?v)),
                          (''velocidad_escape_tierra'', JNum V_ESCAPE_TIERRA),
                          (''ratio_vs_tierra'', JNum (round2 (?v / V_ESCAPE_TIERRA))),
                          (''dificultad_escape'', JStr (snd (nivel_escape ?v))),
                          (''interpretacion'',
                             JStr (fst (nivel_escape ?v) @ ''; '' @ nota_cohete ?v)),
                          (''contexto'', contexto)]])]"
    using calcular_velocidad_escape_fila [of nombre svc fila resto] assms(1,2) by simp
  moreover have "jfield ''velocidad_escape_kms''
      (JObj [(''pl_name'', cell_json n),
                          (''pl_masse'', cell_json (CFloat m)),
                          (''pl_rade'', cell_json (CFloat r)),
                          (''velocidad_escape_kms'', JNum (round2 ?v)),
                          (''velocidad_escape_tierra'', JNum V_ESCAPE_TIERRA),
                          (''ratio_vs_tierra'', JNum (round2 (?v / V_ESCAPE_TIERRA))),
                          (''dificultad_escape'', JStr (snd (nivel_escape ?v))),
                          (''interpretacion'',
                             JStr (fst (nivel_escape ?v) @ ''; '' @ nota_cohete ?v)),
                          (''contexto'', contexto)]) = Some (JNum (round2 ?v))"
    by simp
  ultimately show ?thesis by blast
qed

text \<open>
  C7: \<open>calcular_velocidad_escape\<close> on a first row that has the mass and radius columns.
  When the mass or the radius is missing (null or NaN), the result is the error envelope whose
  message names the missing mass or radius data, with an empty data list and so no velocity.
  When neither is missing that envelope is not returned, and for a float mass \<open>m \<ge> 0\<close> and a
  float radius \<open>r > 0\<close> the computation runs: the result is a success envelope with one data
  element that has the velocity field. Every call returns an envelope whose status is success,
  error or empty.
\<close>

theorem masa_o_radio_ausentes:
  "(strip nombre \<noteq> []
      \<and> svc (calcular_velocidad_escape_query (replace [quote] [quote, quote] nombre))
          = Rows (fila # resto)
      \<and> map_of fila ''pl_masse'' = Some a \<and> map_of fila ''pl_rade'' = Some b
      \<and> (a = Missing \<or> b = Missing)
    \<longrightarrow> fst (calcular_velocidad_escape svc nombre) = sin_masa_o_radio nombre
        \<and> jfield ''status'' (fst (calcular_velocidad_escape svc nombre)) = Some (JStr ''error'')
        \<and> (\<exists>msg. jfield ''message'' (fst (calcular_velocidad_escape svc nombre)) = Some (JStr msg)
               \<and> contains ''masa o radio'' msg)
        \<and> jfield ''data'' (fst (calcular_velocidad_escape svc nombre)) = Some (JArr []))
   \<and> (strip nombre \<noteq> []
      \<and> svc (calcular_velocidad_escape_query (replace [quote] [quote, quote] nombre))
          = Rows (fila # resto)
      \<and> map_of fila ''pl_masse'' = Some a \<and> map_of fila ''pl_rade'' = Some b
      \<and> a \<noteq> Missing \<and> b \<noteq> Missing
    \<longrightarrow> fst (calcular_velocidad_escape svc nombre) \<noteq> sin_masa_o_radio nombre)
   \<and> (strip nombre \<noteq> []
      \<and> svc (calcular_velocidad_escape_query (replace [quote] [quote, quote] nombre))
          = Rows (fila # resto)
      \<and> map_of fila ''pl_masse'' = Some (CFloat m) \<and> map_of fila ''pl_rade'' = Some (CFloat r)
      \<and> 0 \<le> m \<and> 0 < r \<and> map_of fila ''pl_name'' = Some n
    \<longrightarrow> (\<exists>d. fst (calcular_velocidad_escape svc nombre) =
               JObj [(''status'', JStr ''success''), (''count'', JInt 1), (''data'', JArr [d])]
             \<and> jfield ''velocidad_escape_kms'' d \<noteq> None))
   \<and> (\<exists>s. jfield ''status'' (fst (calcular_velocidad_escape svc nombre)) = Some (JStr s)
          \<and> (s = ''success'' \<or> s = ''error'' \<or> s = ''empty''))"
proof (intro conjI impI)
  assume h: "strip nombre \<noteq> []
      \<and> svc (calcular_velocidad_escape_query (replace [quote] [quote, quote] nombre))
          = Rows (fila # resto)
      \<and> map_of fila ''pl_masse'' = Some a \<and> map_of fila ''pl_rade'' = Some b
      \<and> (a = Missing \<or> b = Missing)"
  then have e: "fst (calcular_velocidad_escape svc nombre) = sin_masa_o_radio nombre"
    using calcular_sin_datos [of nombre svc fila resto a b] by blast
  show "fst (calcular_velocidad_escape svc nombre) = sin_masa_o_radio nombre"
    by (rule e)
  show "jfield ''status'' (fst (calcular_velocidad_escape svc nombre)) = Some (JStr ''error'')"
    unfolding e by (rule status_sin_masa_o_radio)
  show "\<exists>msg. jfield ''message'' (fst (calcular_velocidad_escape svc nombre)) = Some (JStr msg)
               \<and> contains ''masa o radio'' msg"
    unfolding e by (rule message_sin_masa_o_radio)
  show "jfield ''data'' (fst (calcular_velocidad_escape svc nombre)) = Some (JArr [])"
    unfolding e by (rule status_sin_masa_o_radio)
next
  assume "strip nombre \<noteq> []
      \<and> svc (calcular_velocidad_escape_query (replace [quote] [quote, quote] nombre))
          = Rows (fila # resto)
      \<and> map_of fila ''pl_masse'' = Some a \<and> map_of fila ''pl_rade'' = Some b
      \<and> a \<noteq> Missing \<and> b \<noteq> Missing"
  then show "fst (calcular_velocidad_escape svc nombre) \<noteq> sin_masa_o_radio nombre"
    using calcular_con_datos [of nombre svc fila resto a b] by blast
next
  assume "strip nombre \<noteq> []
      \<and> svc (calcular_velocidad_escape_query (replace [quote] [quote, quote] nombre))
          = Rows (fila # resto)
      \<and> map_of fila ''pl_masse'' = Some (CFloat m) \<and> map_of fila ''pl_rade'' = Some (CFloat r)
      \<and> 0 \<le> m \<and> 0 < r \<and> map_of fila ''pl_name'' = Some n"
  then show "\<exists>d. fst (calcular_velocidad_escape svc nombre) =
               JObj [(''status'', JStr ''success''), (''count'', JInt 1), (''data'', JArr [d])]
             \<and> jfield ''velocidad_escape_kms'' d \<noteq> None"
    using calcular_velocidad [of nombre svc fila resto m r n] by fastforce
next
  show "\<exists>s. jfield ''status'' (fst (calcular_velocidad_escape svc nombre)) = Some (JStr s)
          \<and> (s = ''success'' \<or> s = ''error'' \<or> s = ''empty'')"
    by (rule calcular_status)
qed

theorem masa_o_radio_ausentes_witness:
  "fst (calcular_velocidad_escape (servicio_de [fila_masa Missing]) ''Kepler-442 b'')
     = sin_masa_o_radio ''Kepler-442 b''
   \<and> jfield ''status''
         (fst (calcular_velocidad_escape (servicio_de [fila_masa Missing]) ''Kepler-442 b''))
       = Some (JStr ''error'')
   \<and> (\<exists>msg. jfield ''message''
               (fst (calcular_velocidad_escape (servicio_de [fila_masa Missing]) ''Kepler-442 b''))
             = Some (JStr msg)
           \<and> contains ''masa o radio'' msg)
   \<and> jfield ''data''
         (fst (calcular_velocidad_escape (servicio_de [fila_masa Missing]) ''Kepler-442 b''))
       = Some (JArr [])
   \<and> fst (calcular_velocidad_escape (servicio_de [fila_masa (CFloat 2.36)]) ''Kepler-442 b'')
       \<noteq> sin_masa_o_radio ''Kepler-442 b''
   \<and> (\<exists>d. fst (calcular_velocidad_escape (servicio_de [fila_masa (CFloat 2.36)])
                  ''Kepler-442 b'') =
               JObj [(''status'', JStr ''success''), (''count'', JInt 1), (''data'', JArr [d])]
             \<and> jfield ''velocidad_escape_kms'' d \<noteq> None)
   \<and> (\<exists>s. jfield ''status''
             (fst (calcular_velocidad_escape (servicio_de [fila_masa (CFloat 2.36)])
                ''Kepler-442 b'')) = Some (JStr s)
          \<and> (s = ''success'' \<or> s = ''error'' \<or> s = ''empty''))"
proof -
  have s: "strip ''Kepler-442 b'' \<noteq> []"
    by (simp add: strip_def isspace_def)
  have q: "\<And>a. servicio_de [fila_masa a]
             (calcular_velocidad_escape_query (replace [quote] [quote, quote] ''Kepler-442 b''))
           = Rows (fila_masa a # [])"
    by (simp add: servicio_de_def)
  have r: "\<And>a. map_of (fila_masa a) ''pl_rade'' = Some (CFloat 1.34)"
    and m: "\<And>a. map_of (fila_masa a) ''pl_masse'' = Some a"
    and n: "\<And>a. map_of (fila_masa a) ''pl_name'' = Some (CStr ''Kepler-442 b'')"
    by (simp_all add: fila_masa_def)
  have ar: "(0::real) \<le> 2.36" "(0::real) < 1.34" "CFloat 2.36 \<noteq> Missing"
    "CFloat 1.34 \<noteq> Missing"
    by simp_all
  note missing = masa_o_radio_ausentes
        [where nombre = "''Kepler-442 b''" and svc = "servicio_de [fila_masa Missing]"
           and fila = "fila_masa Missing" and resto = "[]" and a = Missing
           and b = "CFloat 1.34"]
  note present = masa_o_radio_ausentes
        [where nombre = "''Kepler-442 b''" and svc = "servicio_de [fila_masa (CFloat 2.36)]"
           and fila = "fila_masa (CFloat 2.36)" and resto = "[]" and a = "CFloat 2.36"
           and b = "CFloat 1.34" and m = "2.36" and r = "1.34" and n = "CStr ''Kepler-442 b''"]
  show ?thesis
    using missing present s q [of Missing] q [of "CFloat 2.36"] r [of Missing]
      r [of "CFloat 2.36"] m [of Missing] m [of "CFloat 2.36"] n [of "CFloat 2.36"] ar
    by blast
qed

lemma comparar_con_tierra_primera_fila:
  assumes "svc (comparar_con_tierra_query (replace [quote] [quote, quote] nombre))
             = Rows (fila # resto)"
    and "svc' (comparar_con_tierra_query (replace [quote] [quote, quote] nombre))
             = Rows (fila # resto')"
  shows "comparar_con_tierra svc nombre = comparar_con_tierra svc' nombre"
  using assms by (simp add: comparar_con_tierra_def Let_def)

lemma calcular_velocidad_escape_primera_fila:
  assumes "svc (calcular_velocidad_escape_query (replace [quote] [quote, quote] nombre))
             = Rows (fila # resto)"
    and "svc' (calcular_velocidad_escape_query (replace [quote] [quote, quote] nombre))
             = Rows (fila # resto')"
  shows "calcular_velocidad_escape svc nombre = calcular_velocidad_escape svc' nombre"
  using assms by (simp add: calcular_velocidad_escape_def Let_def)

lemma comparar_con_tierra_success:
  assumes "jfield ''status'' (fst (comparar_con_tierra svc nombre)) = Some (JStr ''success'')"
  shows "\<exists>d. fst (comparar_con_tierra svc nombre) =
           JObj [(''status'', JStr ''success''), (''count'', JInt 1), (''data'', JArr [d])]"
  using assms
  by (auto simp add: comparar_con_tierra_def Let_def nombre_vacio_def error_inesperado_def
      no_encontrado_def split: if_splits tap_outcome.splits list.splits sum.splits)

lemma calcular_velocidad_escape_success:
  assumes "jfield ''status'' (fst (calcular_velocidad_escape svc nombre)) = Some (JStr ''success'')"
  shows "\<exists>d. fst (calcular_velocidad_escape svc nombre) =
           JObj [(''status'', JStr ''success''), (''count'', JInt 1), (''data'', JArr [d])]"
proof -
  have "\<And>fila envelope. calcular_velocidad_escape_datos nombre fila = Inr envelope \<Longrightarrow>
          jfield ''status'' envelope = Some (JStr ''success'') \<Longrightarrow>
          \<exists>d. envelope =
            JObj [(''status'', JStr ''success''), (''count'', JInt 1), (''data'', JArr [d])]"
    using calcular_datos_shape by (fastforce simp add: sin_masa_o_radio_def)
  then show ?thesis
    using assms
    by (auto simp add: calcular_velocidad_escape_def Let_def nombre_vacio_def
        error_inesperado_def no_encontrado_def
        split: if_splits tap_outcome.splits list.splits sum.splits)
qed

text \<open>
  C10: a success envelope of \<open>comparar_con_tierra\<close> or \<open>calcular_velocidad_escape\<close> has
  count 1 and a data list with one element, and two services whose answers to the query start
  with the same row give the same result, whatever rows follow.
\<close>

theorem exito_con_una_sola_fila:
  "(jfield ''status'' (fst (comparar_con_tierra svc nombre)) = Some (JStr ''success'')
    \<longrightarrow> jfield ''count'' (fst (comparar_con_tierra svc nombre)) = Some (JInt 1)
        \<and> (\<exists>d. jfield ''data'' (fst (comparar_con_tierra svc nombre)) = Some (JArr [d])))
   \<and> (jfield ''status'' (fst (calcular_velocidad_escape svc nombre)) = Some (JStr ''success'')
    \<longrightarrow> jfield ''count'' (fst (calcular_velocidad_escape svc nombre)) = Some (JInt 1)
        \<and> (\<exists>d. jfield ''data'' (fst (calcular_velocidad_escape svc nombre)) = Some (JArr [d])))
   \<and> (svc (comparar_con_tierra_query (replace [quote] [quote, quote] nombre))
          = Rows (fila # resto)
      \<and> svc' (comparar_con_tierra_query (replace [quote] [quote, quote] nombre))
          = Rows (fila # resto')
    \<longrightarrow> comparar_con_tierra svc nombre = comparar_con_tierra svc' nombre)
   \<and> (svc (calcular_velocidad_escape_query (replace [quote] [quote, quote] nombre))
          = Rows (fila # resto)
      \<and> svc' (calcular_velocidad_escape_query (replace [quote] [quote, quote] nombre))
          = Rows (fila # resto')
    \<longrightarrow> calcular_velocidad_escape svc nombre = calcular_velocidad_escape svc' nombre)"
proof (intro conjI impI)
  assume "jfield ''status'' (fst (comparar_con_tierra svc nombre)) = Some (JStr ''success'')"
  then obtain d where "fst (comparar_con_tierra svc nombre) =
      JObj [(''status'', JStr ''success''), (''count'', JInt 1), (''data'', JArr [d])]"
    using comparar_con_tierra_success by blast
  then show "jfield ''count'' (fst (comparar_con_tierra svc nombre)) = Some (JInt 1)"
    and "\<exists>d. jfield ''data'' (fst (comparar_con_tierra svc nombre)) = Some (JArr [d])"
    by simp_all
next
  assume "jfield ''status'' (fst (calcular_velocidad_escape svc nombre)) = Some (JStr ''success'')"
  then obtain d where "fst (calcular_velocidad_escape svc nombre) =
      JObj [(''status'', JStr ''success''), (''count'', JInt 1), (''data'', JArr [d])]"
    using calcular_velocidad_escape_success by blast
  then show "jfield ''count'' (fst (calcular_velocidad_escape svc nombre)) = Some (JInt 1)"
    and "\<exists>d. jfield ''data'' (fst (calcular_velocidad_escape svc nombre)) = Some (JArr [d])"
    by simp_all
next
  assume "svc (comparar_con_tierra_query (replace [quote] [quote, quote] nombre))
          = Rows (fila # resto)
      \<and> svc' (comparar_con_tierra_query (replace [quote] [quote, quote] nombre))
          = Rows (fila # resto')"
  then show "comparar_con_tierra svc nombre = comparar_con_tierra svc' nombre"
    using comparar_con_tierra_primera_fila [of svc nombre fila resto svc' resto'] by blast
next
  assume "svc (calcular_velocidad_escape_query (replace [quote] [quote, quote] nombre))
          = Rows (fila # resto)
      \<and> svc' (calcular_velocidad_escape_query (replace [quote] [quote, quote] nombre))
          = Rows (fila # resto')"
  then show "calcular_velocidad_escape svc nombre = calcular_velocidad_escape svc' nombre"
    using calcular_velocidad_escape_primera_fila [of svc nombre fila resto svc' resto'] by blast
qed

theorem exito_con_una_sola_fila_witness:
  "jfield ''count'' (fst (comparar_con_tierra (servicio_de [fila_masa (CFloat 1), fila_tierra]) ''Kepler-442 b'')) = Some (JInt 1)
   \<and> (\<exists>d. jfield ''data'' (fst (comparar_con_tierra (servicio_de [fila_masa (CFloat 1), fila_tierra]) ''Kepler-442 b'')) = Some (JArr [d]))
   \<and> jfield ''count'' (fst (calcular_velocidad_escape (servicio_de [fila_masa (CFloat 1), fila_tierra]) ''Kepler-442 b'')) = Some (JInt 1)
   \<and> (\<exists>d. jfield ''data'' (fst (calcular_velocidad_escape (servicio_de [fila_masa (CFloat 1), fila_tierra]) ''Kepler-442 b'')) = Some (JArr [d]))
   \<and> comparar_con_tierra (servicio_de [fila_masa (CFloat 1), fila_tierra]) ''Kepler-442 b'' = comparar_con_tierra (servicio_de [fila_masa (CFloat 1)]) ''Kepler-442 b''
   \<and> calcular_velocidad_escape (servicio_de [fila_masa (CFloat 1), fila_tierra]) ''Kepler-442 b'' = calcular_velocidad_escape (servicio_de [fila_masa (CFloat 1)]) ''Kepler-442 b''"
proof -
  have s: "strip ''Kepler-442 b'' \<noteq> []"
    by (simp add: strip_def isspace_def)
  have q: "\<And>query. (servicio_de [fila_masa (CFloat 1), fila_tierra]) query = Rows (fila_masa (CFloat 1) # [fila_tierra])"
    "\<And>query. (servicio_de [fila_masa (CFloat 1)]) query = Rows (fila_masa (CFloat 1) # [])"
    by (simp_all add: servicio_de_def)
  have c: "map_of (fila_masa (CFloat 1)) ''pl_orbper'' = Some (CFloat 730.5)"
    "map_of (fila_masa (CFloat 1)) ''pl_masse'' = Some (CFloat 1)"
    "map_of (fila_masa (CFloat 1)) ''pl_rade'' = Some (CFloat 1.34)"
    "map_of (fila_masa (CFloat 1)) ''pl_name'' = Some (CStr ''Kepler-442 b'')"
    by (simp_all add: fila_masa_def)
  have "\<exists>d. fst (comparar_con_tierra (servicio_de [fila_masa (CFloat 1), fila_tierra]) ''Kepler-442 b'') =
          JObj [(''status'', JStr ''success''), (''count'', JInt 1), (''data'', JArr [d])]"
    using comparar_con_tierra_interpretacion
            [of "''Kepler-442 b''" "(servicio_de [fila_masa (CFloat 1), fila_tierra])" "fila_masa (CFloat 1)" "[fila_tierra]" "CFloat 730.5" "CFloat 1",
             OF s q(1) c(1) _ c(2) interpretacion_masa_CFloat]
    by auto
  then have a: "jfield ''status'' (fst (comparar_con_tierra (servicio_de [fila_masa (CFloat 1), fila_tierra]) ''Kepler-442 b'')) = Some (JStr ''success'')"
    by auto
  have "\<exists>d. fst (calcular_velocidad_escape (servicio_de [fila_masa (CFloat 1), fila_tierra]) ''Kepler-442 b'') =
          JObj [(''status'', JStr ''success''), (''count'', JInt 1), (''data'', JArr [d])]"
    using calcular_velocidad
            [of "''Kepler-442 b''" "(servicio_de [fila_masa (CFloat 1), fila_tierra])" "fila_masa (CFloat 1)" "[fila_tierra]" 1 "1.34" "CStr ''Kepler-442 b''",
             OF s q(1) c(2) c(3) _ _ c(4)]
    by auto
  then have b: "jfield ''status'' (fst (calcular_velocidad_escape (servicio_de [fila_masa (CFloat 1), fila_tierra]) ''Kepler-442 b'')) = Some (JStr ''success'')"
    by auto
  show ?thesis
    using exito_con_una_sola_fila
        [where svc = "(servicio_de [fila_masa (CFloat 1), fila_tierra])" and nombre = "''Kepler-442 b''" and svc' = "(servicio_de [fila_masa (CFloat 1)])"
           and fila = "fila_masa (CFloat 1)" and resto = "[fila_tierra]" and resto' = "[]"]
      a b q
    by blast
qed

subsection \<open>Rounding to binary64 and the monotonicity of the formula\<close>

lemma floor_log2:
  assumes "power_int 2 k \<le> x" and "x < power_int 2 (k + 1)"
  shows "\<lfloor>log 2 x\<rfloor> = k"
proof -
  have "0 < power_int (2::real) k" by simp
  then have pos: "0 < x" using assms(1) by linarith
  have "2 powr (of_int k) \<le> x \<and> x < 2 powr (of_int k + 1)"
    using assms powr_real_of_int' [of 2 k] powr_real_of_int' [of 2 "k + 1"] by simp
  then show ?thesis
    using floor_log_eq_powr_iff [of x 2 k] pos by simp
qed

lemma fl_eq:
  assumes "power_int 2 (e + 52) \<le> x" and "x < power_int 2 (e + 53)"
    and "of_int n - 1 / 2 < x / power_int 2 e" and "x / power_int 2 e < of_int n + 1 / 2"
  shows "fl x = of_int n * power_int 2 e"
proof -
  have "0 < power_int (2::real) (e + 52)" by simp
  then have pos: "0 < x" using assms(1) by linarith
  have "\<lfloor>log 2 x\<rfloor> = e + 52"
    using floor_log2 [of "e + 52" x] assms(1,2) by (simp add: add.commute add.left_commute)
  then have "\<lfloor>log 2 \<bar>x\<bar>\<rfloor> - 52 = e" using pos by simp
  moreover have "round_half_even (x / power_int 2 e) = n"
    using assms(3,4) by (rule round_half_even_near)
  ultimately show ?thesis using pos by (simp add: fl_def)
qed

lemma fl_sqrt_eq:
  assumes "(power_int 2 (e + 52))\<^sup>2 \<le> q" and "q < (power_int 2 (e + 53))\<^sup>2"
    and "0 \<le> (real_of_int n - 1 / 2) * power_int 2 e"
    and "((of_int n - 1 / 2) * power_int 2 e)\<^sup>2 < q"
    and "q < ((of_int n + 1 / 2) * power_int 2 e)\<^sup>2"
  shows "fl (sqrt q) = of_int n * power_int 2 e"
proof (rule fl_eq)
  have p: "0 < power_int (2::real) e" by simp
  show "power_int 2 (e + 52) \<le> sqrt q"
    using assms(1) by (rule real_le_rsqrt)
  show "sqrt q < power_int 2 (e + 53)"
    using assms(2) by (intro real_less_lsqrt) simp_all
  have "(of_int n - 1 / 2) * power_int 2 e < sqrt q"
    using assms(4) by (rule real_less_rsqrt)
  then show "of_int n - 1 / 2 < sqrt q / power_int 2 e"
    using p by (simp add: pos_less_divide_eq)
  have "real_of_int n - 1 / 2 \<le> real_of_int n + 1 / 2" by simp
  then have "(real_of_int n - 1 / 2) * power_int 2 e \<le> (real_of_int n + 1 / 2) * power_int 2 e"
    using p by (simp only: mult_le_cancel_right_pos)
  then have "0 \<le> (real_of_int n + 1 / 2) * power_int (2::real) e"
    using assms(3) by linarith
  then have "sqrt q < (of_int n + 1 / 2) * power_int 2 e"
    using assms(5) by (intro real_less_lsqrt)
  then show "sqrt q / power_int 2 e < of_int n + 1 / 2"
    using p by (simp add: pos_divide_less_eq)
qed

lemma fl_G: "fl (G) = 5163757388869142 * power_int 2 (-86)"
  using fl_eq [of "-86" "G" 5163757388869142]
  by (simp add: G_def power_int_minus_divide)

lemma fl_MASA_TIERRA_KG: "fl (MASA_TIERRA_KG) = 5561858415603638 * power_int 2 (30)"
  using fl_eq [of "30" "MASA_TIERRA_KG" 5561858415603638]
  by (simp add: MASA_TIERRA_KG_def power_int_minus_divide)

lemma fl_RADIO_TIERRA_M: "fl (RADIO_TIERRA_M) = 6840809160704000 * power_int 2 (-30)"
  using fl_eq [of "-30" "RADIO_TIERRA_M" 6840809160704000]
  by (simp add: RADIO_TIERRA_M_def power_int_minus_divide)

lemma fl_dos_G: "fl (2 * (5163757388869142 * power_int 2 (-86))) = 5163757388869142 * power_int 2 (-85)"
  using fl_eq [of "-85" "2 * (5163757388869142 * power_int 2 (-86))" 5163757388869142]
  by (simp add: power_int_minus_divide)

lemma fl_radio_1: "fl (1 * (6840809160704000 * power_int 2 (-30))) = 6840809160704000 * power_int 2 (-30)"
  using fl_eq [of "-30" "1 * (6840809160704000 * power_int 2 (-30))" 6840809160704000]
  by (simp add: power_int_minus_divide)

lemma fl_masa_a: "fl (1 * (5561858415603638 * power_int 2 (30))) = 5561858415603638 * power_int 2 (30)"
  using fl_eq [of "30" "1 * (5561858415603638 * power_int 2 (30))" 5561858415603638]
  by (simp add: power_int_minus_divide)

lemma fl_num_a: "fl ((5163757388869142 * power_int 2 (-85)) * (5561858415603638 * power_int 2 (30))) = 6377140480000000 * power_int 2 (-3)"
  using fl_eq [of "-3" "(5163757388869142 * power_int 2 (-85)) * (5561858415603638 * power_int 2 (30))" 6377140480000000]
  by (simp add: power_int_minus_divide)

lemma fl_q_a: "fl ((6377140480000000 * power_int 2 (-3)) / (6840809160704000 * power_int 2 (-30))) = 8396693085489223 * power_int 2 (-26)"
  using fl_eq [of "-26" "(6377140480000000 * power_int 2 (-3)) / (6840809160704000 * power_int 2 (-30))" 8396693085489223]
  by (simp add: power_int_minus_divide)

lemma fl_sqrt_a: "fl (sqrt (8396693085489223 * power_int 2 (-26))) = 6149418171742241 * power_int 2 (-39)"
  using fl_sqrt_eq [where q = "8396693085489223 * power_int 2 (-26)" and e = "-39" and n = 6149418171742241]
  by (simp add: power_int_minus_divide power2_eq_square)

lemma fl_v: "fl ((6149418171742241 * power_int 2 (-39)) / 1000) = 6297004207864055 * power_int 2 (-49)"
  using fl_eq [of "-49" "(6149418171742241 * power_int 2 (-39)) / 1000" 6297004207864055]
  by (simp add: power_int_minus_divide)

lemma fl_masa_b: "fl ((1 + 1 / 2 ^ 52) * (5561858415603638 * power_int 2 (30))) = 5561858415603639 * power_int 2 (30)"
  using fl_eq [of "30" "(1 + 1 / 2 ^ 52) * (5561858415603638 * power_int 2 (30))" 5561858415603639]
  by (simp add: power_int_minus_divide)

lemma fl_num_b: "fl ((5163757388869142 * power_int 2 (-85)) * (5561858415603639 * power_int 2 (30))) = 6377140480000001 * power_int 2 (-3)"
  using fl_eq [of "-3" "(5163757388869142 * power_int 2 (-85)) * (5561858415603639 * power_int 2 (30))" 6377140480000001]
  by (simp add: power_int_minus_divide)

lemma fl_q_b: "fl ((6377140480000001 * power_int 2 (-3)) / (6840809160704000 * power_int 2 (-30))) = 8396693085489224 * power_int 2 (-26)"
  using fl_eq [of "-26" "(6377140480000001 * power_int 2 (-3)) / (6840809160704000 * power_int 2 (-30))" 8396693085489224]
  by (simp add: power_int_minus_divide)

lemma fl_sqrt_b: "fl (sqrt (8396693085489224 * power_int 2 (-26))) = 6149418171742241 * power_int 2 (-39)"
  using fl_sqrt_eq [where q = "8396693085489224 * power_int 2 (-26)" and e = "-39" and n = 6149418171742241]
  by (simp add: power_int_minus_divide power2_eq_square)

lemma round_half_even_floor:
  "\<lfloor>y\<rfloor> \<le> round_half_even y \<and> round_half_even y \<le> \<lfloor>y\<rfloor> + 1"
  by (simp add: round_half_even_def Let_def)

lemma round_half_even_le_int:
  assumes "y \<le> of_int n"
  shows "round_half_even y \<le> n"
proof (cases "y = of_int n")
  case True
  then show ?thesis by (simp add: round_half_even_def Let_def)
next
  case False
  with assms have "y < of_int n" by simp
  then have "\<lfloor>y\<rfloor> + 1 \<le> n" by linarith
  then show ?thesis using round_half_even_floor [of y] by linarith
qed

lemma round_half_even_ge_int:
  assumes "of_int n \<le> y"
  shows "n \<le> round_half_even y"
proof -
  have "n \<le> \<lfloor>y\<rfloor>" using assms by linarith
  then show ?thesis using round_half_even_floor [of y] by linarith
qed

lemma round_half_even_mono:
  assumes "a \<le> b"
  shows "round_half_even a \<le> round_half_even b"
proof (cases "\<lfloor>a\<rfloor> = \<lfloor>b\<rfloor>")
  case False
  then have "\<lfloor>a\<rfloor> + 1 \<le> \<lfloor>b\<rfloor>" using assms floor_mono [OF assms] by linarith
  then show ?thesis
    using round_half_even_floor [of a] round_half_even_floor [of b] by linarith
next
  case True
  then have "a - of_int \<lfloor>a\<rfloor> \<le> b - of_int \<lfloor>b\<rfloor>" using assms by simp
  then show ?thesis using True by (auto simp add: round_half_even_def Let_def)
qed

lemma floor_log2_bounds:
  assumes "0 < x"
  shows "power_int 2 \<lfloor>log 2 x\<rfloor> \<le> x" and "x < power_int 2 (\<lfloor>log 2 x\<rfloor> + 1)"
proof -
  have "2 powr (of_int \<lfloor>log 2 x\<rfloor>) \<le> x \<and> x < 2 powr (of_int \<lfloor>log 2 x\<rfloor> + 1)"
    using floor_log_eq_powr_iff [of x 2 "\<lfloor>log 2 x\<rfloor>"] assms by simp
  then show "power_int 2 \<lfloor>log 2 x\<rfloor> \<le> x" and "x < power_int 2 (\<lfloor>log 2 x\<rfloor> + 1)"
    using powr_real_of_int' [of 2 "\<lfloor>log 2 x\<rfloor>"] powr_real_of_int' [of 2 "\<lfloor>log 2 x\<rfloor> + 1"]
    by simp_all
qed

lemma fl_unfold:
  assumes "0 < x"
  shows "fl x = of_int (round_half_even (x / power_int 2 (\<lfloor>log 2 x\<rfloor> - 52)))
                * power_int 2 (\<lfloor>log 2 x\<rfloor> - 52)"
  using assms by (simp add: fl_def Let_def)

lemma fl_lower:
  assumes "0 < x"
  shows "power_int 2 \<lfloor>log 2 x\<rfloor> \<le> fl x"
proof -
  let ?k = "\<lfloor>log 2 x\<rfloor>"
  let ?p = "power_int (2::real) (?k - 52)"
  have p: "0 < ?p" by simp
  have split: "power_int (2::real) ?k = 2 ^ 52 * ?p"
    using power_int_add [of "2::real" 52 "?k - 52"] by simp
  have "of_int (2 ^ 52) \<le> x / ?p"
    using floor_log2_bounds(1) [OF assms] p split by (simp add: pos_le_divide_eq)
  then have "2 ^ 52 \<le> round_half_even (x / ?p)"
    by (rule round_half_even_ge_int)
  then have "(2::real) ^ 52 \<le> of_int (round_half_even (x / ?p))"
    by (metis of_int_le_iff of_int_numeral of_int_power)
  then have "2 ^ 52 * ?p \<le> of_int (round_half_even (x / ?p)) * ?p"
    using p by (simp only: mult_le_cancel_right_pos)
  then show ?thesis using fl_unfold [OF assms] split by simp
qed

lemma fl_upper:
  assumes "0 < x"
  shows "fl x \<le> power_int 2 (\<lfloor>log 2 x\<rfloor> + 1)"
proof -
  let ?k = "\<lfloor>log 2 x\<rfloor>"
  let ?p = "power_int (2::real) (?k - 52)"
  have p: "0 < ?p" by simp
  have split: "power_int (2::real) (?k + 1) = 2 ^ 53 * ?p"
    using power_int_add [of "2::real" 53 "?k - 52"] by (simp add: add.commute)
  have "x / ?p \<le> of_int (2 ^ 53)"
    using floor_log2_bounds(2) [OF assms] p split by (simp add: pos_divide_le_eq)
  then have "round_half_even (x / ?p) \<le> 2 ^ 53"
    by (rule round_half_even_le_int)
  then have "of_int (round_half_even (x / ?p)) \<le> (2::real) ^ 53"
    by (metis of_int_le_iff of_int_numeral of_int_power)
  then have "of_int (round_half_even (x / ?p)) * ?p \<le> 2 ^ 53 * ?p"
    using p by (simp only: mult_le_cancel_right_pos)
  then show ?thesis using fl_unfold [OF assms] split by simp
qed

lemma fl_pos: "0 < x \<Longrightarrow> 0 < fl x"
  using fl_lower [of x] zero_less_power_int [of "2::real" "\<lfloor>log 2 x\<rfloor>"] by linarith

lemma fl_mono:
  assumes "0 < x" and "x \<le> y"
  shows "fl x \<le> fl y"
proof -
  have y: "0 < y" using assms by linarith
  have k: "\<lfloor>log 2 x\<rfloor> \<le> \<lfloor>log 2 y\<rfloor>"
    using assms y by (intro floor_mono) simp
  show ?thesis
  proof (cases "\<lfloor>log 2 x\<rfloor> = \<lfloor>log 2 y\<rfloor>")
    case True
    let ?p = "power_int (2::real) (\<lfloor>log 2 y\<rfloor> - 52)"
    have p: "0 < ?p" by simp
    have "x / ?p \<le> y / ?p" using assms(2) p by (simp add: divide_right_mono)
    then have "round_half_even (x / ?p) \<le> round_half_even (y / ?p)"
      by (rule round_half_even_mono)
    then have "of_int (round_half_even (x / ?p)) * ?p \<le> of_int (round_half_even (y / ?p)) * ?p"
      using p by (simp only: mult_le_cancel_right_pos of_int_le_iff)
    then show ?thesis using fl_unfold [OF assms(1)] fl_unfold [OF y] True by simp
  next
    case False
    with k have "\<lfloor>log 2 x\<rfloor> + 1 \<le> \<lfloor>log 2 y\<rfloor>" by simp
    then have "power_int (2::real) (\<lfloor>log 2 x\<rfloor> + 1) \<le> power_int 2 \<lfloor>log 2 y\<rfloor>"
      by (intro power_int_increasing) simp_all
    then show ?thesis using fl_upper [OF assms(1)] fl_lower [OF y] by linarith
  qed
qed

lemma fl_1: "fl 1 = 1"
  using fl_eq [of "-52" 1 "2 ^ 52"] by (simp add: power_int_minus_divide)

lemma fl_1_ulp: "fl (1 + 1 / 2 ^ 52) = 1 + 1 / 2 ^ 52"
  using fl_eq [of "-52" "1 + 1 / 2 ^ 52" "2 ^ 52 + 1"] by (simp add: power_int_minus_divide)

lemma constantes_binary64_pos:
  "0 < fl G" "0 < fl MASA_TIERRA_KG" "0 < fl RADIO_TIERRA_M" "0 < fl (2 * fl G)"
proof -
  show g: "0 < fl G" using G_MASA_pos(1) by (rule fl_pos)
  show "0 < fl MASA_TIERRA_KG" using G_MASA_pos(2) by (rule fl_pos)
  show "0 < fl RADIO_TIERRA_M" using RADIO_TIERRA_M_pos by (rule fl_pos)
  show "0 < fl (2 * fl G)" using g by (intro fl_pos) simp
qed

lemma numerador_binary64_pos:
  assumes "0 < m"
  shows "0 < fl (fl (2 * fl G) * fl (m * fl MASA_TIERRA_KG))"
proof -
  have "0 < fl (m * fl MASA_TIERRA_KG)"
    using assms constantes_binary64_pos(2) by (intro fl_pos) simp
  then show ?thesis
    using constantes_binary64_pos(4) by (intro fl_pos) simp
qed

lemma radio_binary64_pos:
  assumes "0 < r"
  shows "0 < fl (r * fl RADIO_TIERRA_M)"
  using assms constantes_binary64_pos(3) by (intro fl_pos) simp

lemma v_escape_kms_binary64_pos:
  assumes "0 < m" and "0 < r"
  shows "v_escape_kms_binary64 m r =
           Inr (fl (fl (sqrt (fl (fl (fl (2 * fl G) * fl (m * fl MASA_TIERRA_KG))
                                  / fl (r * fl RADIO_TIERRA_M)))) / 1000))"
proof -
  have d: "fl (r * fl RADIO_TIERRA_M) \<noteq> 0"
    using radio_binary64_pos [OF assms(2)] by simp
  have "0 < fl (fl (2 * fl G) * fl (m * fl MASA_TIERRA_KG)) / fl (r * fl RADIO_TIERRA_M)"
    using numerador_binary64_pos [OF assms(1)] radio_binary64_pos [OF assms(2)] by simp
  then have "0 < fl (fl (fl (2 * fl G) * fl (m * fl MASA_TIERRA_KG))
                      / fl (r * fl RADIO_TIERRA_M))"
    by (rule fl_pos)
  then have q: "\<not> fl (fl (fl (2 * fl G) * fl (m * fl MASA_TIERRA_KG))
                      / fl (r * fl RADIO_TIERRA_M)) < 0"
    by simp
  show ?thesis
    unfolding v_escape_kms_binary64_def Let_def py_div_def math_sqrt_def try_bind_def
    using d q by (simp only: if_False sum.case)
qed

lemma v_escape_kms_binary64_1:
  "v_escape_kms_binary64 1 1 = Inr (6297004207864055 / 2 ^ 49)"
proof -
  have "v_escape_kms_binary64 1 1 = Inr (6297004207864055 * power_int 2 (-49))"
    using v_escape_kms_binary64_pos [of 1 1]
    unfolding fl_G fl_MASA_TIERRA_KG fl_RADIO_TIERRA_M fl_dos_G fl_radio_1 fl_masa_a fl_num_a
      fl_q_a fl_sqrt_a fl_v
    by (simp only: zero_less_one simp_thms)
  then show ?thesis by (simp add: power_int_minus_divide)
qed

lemma v_escape_kms_binary64_1_ulp:
  "v_escape_kms_binary64 (1 + 1 / 2 ^ 52) 1 = Inr (6297004207864055 / 2 ^ 49)"
proof -
  have "(0::real) < 1 + 1 / 2 ^ 52" by simp
  then have "v_escape_kms_binary64 (1 + 1 / 2 ^ 52) 1 = Inr (6297004207864055 * power_int 2 (-49))"
    using v_escape_kms_binary64_pos [of "1 + 1 / 2 ^ 52" 1]
    unfolding fl_G fl_MASA_TIERRA_KG fl_RADIO_TIERRA_M fl_dos_G fl_radio_1 fl_masa_b fl_num_b
      fl_q_b fl_sqrt_b fl_v
    by (simp only: zero_less_one simp_thms)
  then show ?thesis by (simp add: power_int_minus_divide)
qed

lemma v_escape_kms_binary64_mono_masa:
  assumes "0 < r" and "0 < m1" and "m1 \<le> m2"
  shows "fl (fl (sqrt (fl (fl (fl (2 * fl G) * fl (m1 * fl MASA_TIERRA_KG))
                            / fl (r * fl RADIO_TIERRA_M)))) / 1000)
       \<le> fl (fl (sqrt (fl (fl (fl (2 * fl G) * fl (m2 * fl MASA_TIERRA_KG))
                            / fl (r * fl RADIO_TIERRA_M)))) / 1000)"
proof -
  let ?c = "fl (2 * fl G)" and ?d = "fl (r * fl RADIO_TIERRA_M)"
  let ?a1 = "fl (m1 * fl MASA_TIERRA_KG)" and ?a2 = "fl (m2 * fl MASA_TIERRA_KG)"
  have c: "0 < ?c" and d: "0 < ?d"
    using constantes_binary64_pos(4) radio_binary64_pos [OF assms(1)] by simp_all
  have a1: "0 < ?a1" using assms(2) constantes_binary64_pos(2) by (intro fl_pos) simp
  have "?a1 \<le> ?a2"
    using assms(2,3) constantes_binary64_pos(2) by (intro fl_mono) simp_all
  then have n: "fl (?c * ?a1) \<le> fl (?c * ?a2)"
    using c a1 by (intro fl_mono) simp_all
  have n1: "0 < fl (?c * ?a1)" using c a1 by (intro fl_pos) simp
  have q: "fl (fl (?c * ?a1) / ?d) \<le> fl (fl (?c * ?a2) / ?d)"
    using n n1 d by (intro fl_mono) (simp_all add: divide_right_mono)
  have q1: "0 < fl (fl (?c * ?a1) / ?d)" using n1 d by (intro fl_pos) simp
  have s: "fl (sqrt (fl (fl (?c * ?a1) / ?d))) \<le> fl (sqrt (fl (fl (?c * ?a2) / ?d)))"
    using q q1 by (intro fl_mono) simp_all
  have s1: "0 < fl (sqrt (fl (fl (?c * ?a1) / ?d)))" using q1 by (intro fl_pos) simp
  show ?thesis
    using s s1 by (intro fl_mono) simp_all
qed

lemma v_escape_kms_binary64_mono_radio:
  assumes "0 < m" and "0 < r1" and "r1 \<le> r2"
  shows "fl (fl (sqrt (fl (fl (fl (2 * fl G) * fl (m * fl MASA_TIERRA_KG))
                            / fl (r2 * fl RADIO_TIERRA_M)))) / 1000)
       \<le> fl (fl (sqrt (fl (fl (fl (2 * fl G) * fl (m * fl MASA_TIERRA_KG))
                            / fl (r1 * fl RADIO_TIERRA_M)))) / 1000)"
proof -
  let ?n = "fl (fl (2 * fl G) * fl (m * fl MASA_TIERRA_KG))"
  let ?d1 = "fl (r1 * fl RADIO_TIERRA_M)" and ?d2 = "fl (r2 * fl RADIO_TIERRA_M)"
  have r2: "0 < r2" using assms(2,3) by linarith
  have n: "0 < ?n" using numerador_binary64_pos [OF assms(1)] .
  have d1: "0 < ?d1" and d2: "0 < ?d2"
    using radio_binary64_pos [OF assms(2)] radio_binary64_pos [OF r2] by simp_all
  have "?d1 \<le> ?d2"
    using assms(2,3) constantes_binary64_pos(3) by (intro fl_mono) simp_all
  then have "?n / ?d2 \<le> ?n / ?d1"
    using n d1 by (simp add: divide_left_mono)
  moreover have "0 < ?n / ?d2" using n d2 by simp
  ultimately have q: "fl (?n / ?d2) \<le> fl (?n / ?d1)" by (intro fl_mono)
  have q2: "0 < fl (?n / ?d2)" using n d2 by (intro fl_pos) simp
  have s: "fl (sqrt (fl (?n / ?d2))) \<le> fl (sqrt (fl (?n / ?d1)))"
    using q q2 by (intro fl_mono) simp_all
  have s2: "0 < fl (sqrt (fl (?n / ?d2)))" using q2 by (intro fl_pos) simp
  show ?thesis
    using s s2 by (intro fl_mono) simp_all
qed

lemma fl_power2: "fl (power_int 2 k) = power_int 2 k"
proof -
  have s: "power_int (2::real) k = 2 ^ 52 * power_int 2 (k - 52)"
    using power_int_add [of "2::real" 52 "k - 52"] by simp
  have "fl (power_int 2 k) = of_int (2 ^ 52) * power_int 2 (k - 52)"
  proof (rule fl_eq)
    show "power_int 2 (k - 52 + 52) \<le> power_int (2::real) k" by simp
    show "power_int (2::real) k < power_int 2 (k - 52 + 53)"
      by (intro power_int_strict_increasing) simp_all
    show "of_int (2 ^ 52) - 1 / 2 < power_int (2::real) k / power_int 2 (k - 52)"
      by (subst s) simp
    show "power_int (2::real) k / power_int 2 (k - 52) < of_int (2 ^ 52) + 1 / 2"
      by (subst s) simp
  qed
  then show ?thesis using s by simp
qed

lemma entre_pos:
  assumes "entre a b x"
  shows "0 < x"
proof -
  have "0 < power_int (2::real) a" by simp
  moreover have "power_int 2 a \<le> x" using assms by (simp add: entre_def)
  ultimately show ?thesis by linarith
qed

lemma fl_entre:
  assumes "entre a b x"
  shows "entre a b (fl x)"
proof -
  have "fl (power_int 2 a) \<le> fl x"
    using assms by (intro fl_mono) (simp_all add: entre_def)
  moreover have "fl x \<le> fl (power_int 2 b)"
    using assms entre_pos [OF assms] by (intro fl_mono) (simp_all add: entre_def)
  ultimately show ?thesis by (simp add: entre_def fl_power2)
qed

lemma entre_mult:
  assumes "entre a b x" and "entre c d y"
  shows "entre (a + c) (b + d) (x * y)"
proof -
  have "power_int 2 a * power_int 2 c \<le> x * y"
    using assms entre_pos [OF assms(1)] by (intro mult_mono) (simp_all add: entre_def)
  moreover have "x * y \<le> power_int 2 b * power_int 2 d"
    using assms entre_pos [OF assms(1)] entre_pos [OF assms(2)]
    by (intro mult_mono) (simp_all add: entre_def)
  ultimately show ?thesis by (simp add: entre_def power_int_add)
qed

lemma entre_inverse:
  assumes "entre c d y"
  shows "entre (- d) (- c) (1 / y)"
proof -
  have y: "0 < y" using assms by (rule entre_pos)
  have "1 / power_int 2 d \<le> 1 / y"
    using assms y by (intro divide_left_mono) (simp_all add: entre_def)
  moreover have "1 / y \<le> 1 / power_int 2 c"
    using assms y by (intro divide_left_mono) (simp_all add: entre_def)
  ultimately show ?thesis by (simp add: entre_def power_int_minus_divide)
qed

lemma entre_div:
  assumes "entre a b x" and "entre c d y"
  shows "entre (a - d) (b - c) (x / y)"
  using entre_mult [OF assms(1) entre_inverse [OF assms(2)]] by simp

lemma entre_sqrt:
  assumes "entre (2 * a) (2 * b) x"
  shows "entre a b (sqrt x)"
proof -
  have sq: "\<And>k. power_int (2::real) (2 * k) = (power_int 2 k)\<^sup>2"
    by (simp add: power2_eq_square power_int_add [symmetric])
  have "power_int 2 a \<le> sqrt x"
    using assms by (intro real_le_rsqrt) (simp add: entre_def sq)
  moreover have "sqrt x \<le> power_int 2 b"
    using assms by (intro real_le_lsqrt) (simp_all add: entre_def sq)
  ultimately show ?thesis by (simp add: entre_def)
qed

lemma entre_weaken:
  assumes "entre a b x" and "a' \<le> a" and "b \<le> b'"
  shows "entre a' b' x"
proof -
  have "power_int (2::real) a' \<le> power_int 2 a" "power_int (2::real) b \<le> power_int 2 b'"
    using assms(2,3) by (simp_all add: power_int_increasing)
  then show ?thesis using assms(1) by (simp add: entre_def)
qed

lemma entre_constantes:
  "entre 82 83 MASA_TIERRA_KG" "entre 22 23 RADIO_TIERRA_M" "entre (-34) (-33) G"
  "entre 1 1 2" "entre 9 10 1000"
  by (simp_all add: entre_def MASA_TIERRA_KG_def RADIO_TIERRA_M_def G_def power_int_minus_divide)

lemma intermedios_binary64_entre:
  assumes m: "entre (-300) 300 m" and r: "entre (-300) 300 r"
  shows "list_all (entre (-1000) 1000) (intermedios_binary64 m r)"
proof -
  let ?masa = "fl (m * fl MASA_TIERRA_KG)" and ?radio = "fl (r * fl RADIO_TIERRA_M)"
  let ?num = "fl (fl (2 * fl G) * ?masa)"
  let ?q = "fl (?num / ?radio)"
  let ?s = "fl (sqrt ?q)"
  have me: "entre 82 83 (fl MASA_TIERRA_KG)" and re: "entre 22 23 (fl RADIO_TIERRA_M)"
    and g: "entre (-34) (-33) (fl G)"
    using entre_constantes(1-3) by (simp_all add: fl_entre)
  have c: "entre (-33) (-32) (fl (2 * fl G))"
    using entre_mult [OF entre_constantes(4) g] by (intro fl_entre) simp
  have masa: "entre (-218) 383 ?masa"
    using entre_mult [OF m me] by (intro fl_entre) simp
  have radio: "entre (-278) 323 ?radio"
    using entre_mult [OF r re] by (intro fl_entre) simp
  have num: "entre (-251) 351 ?num"
    using entre_mult [OF c masa] by (intro fl_entre) simp
  have q: "entre (-574) 629 ?q"
    using entre_div [OF num radio] by (intro fl_entre) simp
  have "entre (2 * (-287)) (2 * 315) ?q"
    using q by (rule entre_weaken) simp_all
  then have "entre (-287) 315 (sqrt ?q)"
    by (rule entre_sqrt)
  then have s: "entre (-287) 315 ?s"
    by (rule fl_entre)
  have v: "entre (-297) 306 (fl (?s / 1000))"
    using entre_div [OF s entre_constantes(5)] by (intro fl_entre) simp
  have w: "\<And>a b x. entre a b x \<Longrightarrow> - 1000 \<le> a \<Longrightarrow> b \<le> 1000 \<Longrightarrow> entre (-1000) 1000 x"
    by (rule entre_weaken)
  show ?thesis
    unfolding intermedios_binary64_def Let_def
    using w [OF me] w [OF re] w [OF g] w [OF c] w [OF masa] w [OF radio] w [OF num] w [OF q]
      w [OF s] w [OF v]
    by simp
qed

text \<open>
  C9, as the code has it. In exact arithmetic the formula is strictly monotone: for a fixed
  positive radius a larger positive mass gives a strictly larger velocity, and for a fixed
  positive mass a larger positive radius gives a strictly smaller velocity. As computed in
  binary64, for masses and radii between \<open>2 powi -300\<close> and \<open>2 powi 300\<close>, it is monotone,
  not strictly: a larger mass never gives a smaller velocity, and a larger radius never gives
  a larger one. In that range every rounded intermediate result lies between
  \<open>2 powi -1000\<close> and \<open>2 powi 1000\<close>, so nothing overflows or underflows, and the formula
  returns the last of them.
\<close>

theorem v_escape_kms_monotone:
  "(0 < r \<and> 0 < m1 \<and> m1 < m2 \<longrightarrow>
      (\<exists>v1 v2. v_escape_kms m1 r = Inr v1 \<and> v_escape_kms m2 r = Inr v2 \<and> v1 < v2))
   \<and> (0 < m \<and> 0 < r1 \<and> r1 < r2 \<longrightarrow>
      (\<exists>v1 v2. v_escape_kms m r1 = Inr v1 \<and> v_escape_kms m r2 = Inr v2 \<and> v2 < v1))
   \<and> (entre (-300) 300 r \<and> entre (-300) 300 m1 \<and> entre (-300) 300 m2 \<and> m1 < m2 \<longrightarrow>
      (\<exists>v1 v2. v_escape_kms_binary64 m1 r = Inr v1 \<and> v_escape_kms_binary64 m2 r = Inr v2
         \<and> v1 \<le> v2))
   \<and> (entre (-300) 300 m \<and> entre (-300) 300 r1 \<and> entre (-300) 300 r2 \<and> r1 < r2 \<longrightarrow>
      (\<exists>v1 v2. v_escape_kms_binary64 m r1 = Inr v1 \<and> v_escape_kms_binary64 m r2 = Inr v2
         \<and> v2 \<le> v1))
   \<and> (entre (-300) 300 m \<and> entre (-300) 300 r \<longrightarrow>
      list_all (entre (-1000) 1000) (intermedios_binary64 m r)
      \<and> v_escape_kms_binary64 m r = Inr (last (intermedios_binary64 m r)))"
proof (intro conjI impI)
  assume h: "entre (-300) 300 r \<and> entre (-300) 300 m1 \<and> entre (-300) 300 m2 \<and> m1 < m2"
  then have "0 < r" and "0 < m1" and "0 < m2" and "m1 \<le> m2"
    using entre_pos by (blast, blast, blast, simp)
  then show "\<exists>v1 v2. v_escape_kms_binary64 m1 r = Inr v1 \<and> v_escape_kms_binary64 m2 r = Inr v2
         \<and> v1 \<le> v2"
    using v_escape_kms_binary64_pos [of m1 r] v_escape_kms_binary64_pos [of m2 r]
      v_escape_kms_binary64_mono_masa [of r m1 m2]
    by simp
next
  assume h: "entre (-300) 300 m \<and> entre (-300) 300 r1 \<and> entre (-300) 300 r2 \<and> r1 < r2"
  then have "0 < m" and "0 < r1" and "0 < r2" and "r1 \<le> r2"
    using entre_pos by (blast, blast, blast, simp)
  then show "\<exists>v1 v2. v_escape_kms_binary64 m r1 = Inr v1 \<and> v_escape_kms_binary64 m r2 = Inr v2
         \<and> v2 \<le> v1"
    using v_escape_kms_binary64_pos [of m r1] v_escape_kms_binary64_pos [of m r2]
      v_escape_kms_binary64_mono_radio [of m r1 r2]
    by simp
next
  assume "entre (-300) 300 m \<and> entre (-300) 300 r"
  then show "list_all (entre (-1000) 1000) (intermedios_binary64 m r)"
    using intermedios_binary64_entre by blast
next
  assume "entre (-300) 300 m \<and> entre (-300) 300 r"
  then have "0 < m" and "0 < r"
    using entre_pos by blast+
  then show "v_escape_kms_binary64 m r = Inr (last (intermedios_binary64 m r))"
    using v_escape_kms_binary64_pos [of m r]
    by (simp add: intermedios_binary64_def Let_def)
next
  assume h: "0 < r \<and> 0 < m1 \<and> m1 < m2"
  have "v_escape_kms m1 r =
          Inr (sqrt (2 * G * (m1 * MASA_TIERRA_KG) / (r * RADIO_TIERRA_M)) / 1000)"
    and "v_escape_kms m2 r =
          Inr (sqrt (2 * G * (m2 * MASA_TIERRA_KG) / (r * RADIO_TIERRA_M)) / 1000)"
    using h by (simp_all only: v_escape_kms_pos less_imp_le less_trans [of 0 m1 m2])
  moreover have "sqrt (2 * G * (m1 * MASA_TIERRA_KG) / (r * RADIO_TIERRA_M)) / 1000
               < sqrt (2 * G * (m2 * MASA_TIERRA_KG) / (r * RADIO_TIERRA_M)) / 1000"
    using h by (intro mono_mass) simp_all
  ultimately show
    "\<exists>v1 v2. v_escape_kms m1 r = Inr v1 \<and> v_escape_kms m2 r = Inr v2 \<and> v1 < v2"
    by blast
next
  assume h: "0 < m \<and> 0 < r1 \<and> r1 < r2"
  have "v_escape_kms m r1 =
          Inr (sqrt (2 * G * (m * MASA_TIERRA_KG) / (r1 * RADIO_TIERRA_M)) / 1000)"
    and "v_escape_kms m r2 =
          Inr (sqrt (2 * G * (m * MASA_TIERRA_KG) / (r2 * RADIO_TIERRA_M)) / 1000)"
    using h by (simp_all only: v_escape_kms_pos less_imp_le less_trans [of 0 r1 r2])
  moreover have "sqrt (2 * G * (m * MASA_TIERRA_KG) / (r2 * RADIO_TIERRA_M)) / 1000
               < sqrt (2 * G * (m * MASA_TIERRA_KG) / (r1 * RADIO_TIERRA_M)) / 1000"
    using h by (intro mono_radius) simp_all
  ultimately show
    "\<exists>v1 v2. v_escape_kms m r1 = Inr v1 \<and> v_escape_kms m r2 = Inr v2 \<and> v2 < v1"
    by blast
qed


theorem v_escape_kms_monotone_witness:
  "(\<exists>v1 v2. v_escape_kms 1 1 = Inr v1 \<and> v_escape_kms 4 1 = Inr v2 \<and> v1 < v2)
   \<and> (\<exists>v1 v2. v_escape_kms 1 1 = Inr v1 \<and> v_escape_kms 1 4 = Inr v2 \<and> v2 < v1)
   \<and> (\<exists>v1 v2. v_escape_kms_binary64 1 1 = Inr v1 \<and> v_escape_kms_binary64 4 1 = Inr v2
         \<and> v1 \<le> v2)
   \<and> (\<exists>v1 v2. v_escape_kms_binary64 1 1 = Inr v1 \<and> v_escape_kms_binary64 1 4 = Inr v2
         \<and> v2 \<le> v1)
   \<and> list_all (entre (-1000) 1000) (intermedios_binary64 1 1)
   \<and> v_escape_kms_binary64 1 1 = Inr (last (intermedios_binary64 1 1))"
proof -
  have e: "entre (-300) 300 1" "entre (-300) 300 4"
    by (simp_all add: entre_def power_int_minus_divide)
  have o: "(0::real) < 1" "(1::real) < 4" by simp_all
  show ?thesis
    using v_escape_kms_monotone [of 1 1 4 1 1 4] e o
    by blast
qed

text \<open>
  C9 as stated fails in binary64: the masses 1 and \<open>1 + 1 / 2 ^ 52\<close> are both floats, the second
  strictly larger, and with radius 1 the computed velocities are the same float.
\<close>

theorem v_escape_kms_binary64_no_estricta_counterexample:
  "fl 1 = 1 \<and> fl (1 + 1 / 2 ^ 52) = 1 + 1 / 2 ^ 52 \<and> (1::real) < 1 + 1 / 2 ^ 52
   \<and> v_escape_kms_binary64 1 1 = Inr (6297004207864055 / 2 ^ 49)
   \<and> v_escape_kms_binary64 (1 + 1 / 2 ^ 52) 1 = Inr (6297004207864055 / 2 ^ 49)"
  by (simp only: fl_1 fl_1_ulp v_escape_kms_binary64_1 v_escape_kms_binary64_1_ulp simp_thms)
     simp

subsection \<open>The rows as the generic runner returns them\<close>

lemma round_half_even_error: "\<bar>of_int (round_half_even y) - y\<bar> \<le> 1 / 2"
proof -
  have f: "of_int \<lfloor>y\<rfloor> \<le> y" "y < of_int \<lfloor>y\<rfloor> + 1" by linarith+
  show ?thesis
    using f by (auto simp add: round_half_even_def Let_def abs_le_iff)
qed

lemma to_json_double_error: "\<bar>to_json_double x - x\<bar> \<le> 1 / 10 ^ 10"
proof -
  have "\<bar>of_int (round_half_even (x * 10 ^ 10)) - x * 10 ^ 10\<bar> \<le> 1 / 2"
    by (rule round_half_even_error)
  then have "\<bar>of_int (round_half_even (x * 10 ^ 10)) / 10 ^ 10 - x\<bar> \<le> (1 / 2) / 10 ^ 10"
    by (simp add: field_simps abs_le_iff)
  then show ?thesis by (simp add: to_json_double_def)
qed

lemma map_of_to_json_record:
  "map_of (map (\<lambda>(k, v). (k, to_json_cell v)) r) k = map_option to_json_cell (map_of r k)"
  by (induction r) auto

lemma to_json_records_nth:
  "i < length df \<Longrightarrow>
     jfield k (to_json_records df ! i) = map_option to_json_cell (map_of (df ! i) k)"
  by (simp add: to_json_records_def map_of_to_json_record)

lemma length_to_json_records: "length (to_json_records df) = length df"
  by (simp add: to_json_records_def)

lemma to_json_double_small: "to_json_double (3 / 2 ^ 36) = 0"
proof -
  have "round_half_even (3 / 2 ^ 36 * 10 ^ 10) = 0"
    by (rule round_half_even_near) simp_all
  then show ?thesis by (simp only: to_json_double_def) 
qed

lemma to_json_double_small_numeral: "to_json_double (3 / 68719476736) = 0"
  using to_json_double_small by simp

lemma ejecutar_rows_success:
  assumes "svc query = Rows df" and "df \<noteq> []"
  shows "ejecutar_query_segura svc query descripcion =
           (JObj [(''status'', JStr ''success''),
                  (''count'', JInt (int (length df))),
                  (''data'', JArr (to_json_records df))], [query])"
  using assms by (simp add: ejecutar_rows)

text \<open>
  C6, as the code has it: the generic runner on a fetched table whose rows have distinct
  column names. With no rows the envelope has status empty, a message that contains the
  description, and an empty data list. With n rows it has status success, count n and a data
  list of n objects, one per row in order: a column the row does not have is absent, a missing
  cell is null, an integer and a string are unchanged, and a float of magnitude up to
  \<open>10 ^ 15\<close> comes back within \<open>1 / 10 ^ 10\<close> of the cell, not equal to it.
\<close>

theorem ejecutar_query_segura_normalizes:
  "(svc query = Rows [] \<longrightarrow>
      ejecutar_query_segura svc query descripcion =
        (JObj [(''status'', JStr ''empty''),
               (''message'', JStr (''No se encontraron resultados para '' @ descripcion)),
               (''data'', JArr [])], [query]))
   \<and> contains descripcion (''No se encontraron resultados para '' @ descripcion)
   \<and> (svc' query' = Rows df \<and> df \<noteq> [] \<and> (\<forall>r \<in> set df. distinct (map fst r)) \<longrightarrow>
      (\<exists>datos.
         ejecutar_query_segura svc' query' descripcion' =
           (JObj [(''status'', JStr ''success''),
                  (''count'', JInt (int (length df))),
                  (''data'', JArr datos)], [query'])
         \<and> length datos = length df
         \<and> (\<forall>i < length df. \<forall>k.
               (map_of (df ! i) k = None \<longrightarrow> jfield k (datos ! i) = None)
             \<and> (map_of (df ! i) k = Some Missing \<longrightarrow> jfield k (datos ! i) = Some JNull)
             \<and> (\<forall>n. map_of (df ! i) k = Some (CInt n) \<longrightarrow>
                    jfield k (datos ! i) = Some (JInt n))
             \<and> (\<forall>s. map_of (df ! i) k = Some (CStr s) \<longrightarrow>
                    jfield k (datos ! i) = Some (JStr s))
             \<and> (\<forall>x. map_of (df ! i) k = Some (CFloat x) \<and> \<bar>x\<bar> \<le> 10 ^ 15 \<longrightarrow>
                    (\<exists>y. jfield k (datos ! i) = Some (JNum y) \<and> \<bar>y - x\<bar> \<le> 1 / 10 ^ 10)))))"
proof (intro conjI impI)
  assume "svc query = Rows []"
  then show "ejecutar_query_segura svc query descripcion =
        (JObj [(''status'', JStr ''empty''),
               (''message'', JStr (''No se encontraron resultados para '' @ descripcion)),
               (''data'', JArr [])], [query])"
    by (simp add: ejecutar_rows)
next
  show "contains descripcion (''No se encontraron resultados para '' @ descripcion)"
    by (rule contains_suffix)
next
  assume h: "svc' query' = Rows df \<and> df \<noteq> [] \<and> (\<forall>r \<in> set df. distinct (map fst r))"
  have "ejecutar_query_segura svc' query' descripcion' =
           (JObj [(''status'', JStr ''success''),
                  (''count'', JInt (int (length df))),
                  (''data'', JArr (to_json_records df))], [query'])"
    using h by (simp add: ejecutar_rows_success)
  moreover have "length (to_json_records df) = length df"
    by (rule length_to_json_records)
  moreover have "\<forall>i < length df. \<forall>k.
               (map_of (df ! i) k = None \<longrightarrow> jfield k (to_json_records df ! i) = None)
             \<and> (map_of (df ! i) k = Some Missing \<longrightarrow>
                    jfield k (to_json_records df ! i) = Some JNull)
             \<and> (\<forall>n. map_of (df ! i) k = Some (CInt n) \<longrightarrow>
                    jfield k (to_json_records df ! i) = Some (JInt n))
             \<and> (\<forall>s. map_of (df ! i) k = Some (CStr s) \<longrightarrow>
                    jfield k (to_json_records df ! i) = Some (JStr s))
             \<and> (\<forall>x. map_of (df ! i) k = Some (CFloat x) \<and> \<bar>x\<bar> \<le> 10 ^ 15 \<longrightarrow>
                    (\<exists>y. jfield k (to_json_records df ! i) = Some (JNum y)
                         \<and> \<bar>y - x\<bar> \<le> 1 / 10 ^ 10))"
    using to_json_double_error by (simp add: to_json_records_nth)
  ultimately show "\<exists>datos.
         ejecutar_query_segura svc' query' descripcion' =
           (JObj [(''status'', JStr ''success''),
                  (''count'', JInt (int (length df))),
                  (''data'', JArr datos)], [query'])
         \<and> length datos = length df
         \<and> (\<forall>i < length df. \<forall>k.
               (map_of (df ! i) k = None \<longrightarrow> jfield k (datos ! i) = None)
             \<and> (map_of (df ! i) k = Some Missing \<longrightarrow> jfield k (datos ! i) = Some JNull)
             \<and> (\<forall>n. map_of (df ! i) k = Some (CInt n) \<longrightarrow>
                    jfield k (datos ! i) = Some (JInt n))
             \<and> (\<forall>s. map_of (df ! i) k = Some (CStr s) \<longrightarrow>
                    jfield k (datos ! i) = Some (JStr s))
             \<and> (\<forall>x. map_of (df ! i) k = Some (CFloat x) \<and> \<bar>x\<bar> \<le> 10 ^ 15 \<longrightarrow>
                    (\<exists>y. jfield k (datos ! i) = Some (JNum y) \<and> \<bar>y - x\<bar> \<le> 1 / 10 ^ 10)))"
    by blast
qed

text \<open>
  C6 as stated fails: a row whose cell is the float \<open>3 / 2 ^ 36\<close> (about 4.4e-11) comes
  back with 0 in that column, so the data are not equal to the rows.
\<close>

theorem datos_redondeados_counterexample:
  "ejecutar_query_segura servicio_decimal ''q'' ''consulta'' =
     (JObj [(''status'', JStr ''success''),
            (''count'', JInt 1),
            (''data'', JArr [JObj [(''pl_name'', JStr ''Kepler-442 b''),
                                   (''pl_orbsmax'', JNum 0)]])], [''q''])
   \<and> map_of fila_decimal ''pl_orbsmax'' = Some (CFloat (3 / 2 ^ 36))
   \<and> (3 / 2 ^ 36 :: real) \<noteq> 0"
  by (simp add: ejecutar_query_segura_def servicio_decimal_def fila_decimal_def
      to_json_records_def to_json_double_small_numeral)

theorem ejecutar_query_segura_normalizes_witness:
  "ejecutar_query_segura servicio_vacio ''q'' ''consulta'' =
        (JObj [(''status'', JStr ''empty''),
               (''message'', JStr (''No se encontraron resultados para '' @ ''consulta'')),
               (''data'', JArr [])], [''q''])
   \<and> contains ''consulta'' (''No se encontraron resultados para '' @ ''consulta'')
   \<and> (\<exists>datos.
         ejecutar_query_segura (servicio_de [fila_masa (CFloat 1)]) ''q'' ''consulta'' =
           (JObj [(''status'', JStr ''success''),
                  (''count'', JInt 1),
                  (''data'', JArr datos)], [''q''])
         \<and> length datos = 1
         \<and> jfield ''columna'' (datos ! 0) = None
         \<and> jfield ''pl_eqt'' (datos ! 0) = Some JNull
         \<and> jfield ''disc_year'' (datos ! 0) = Some (JInt 2015)
         \<and> jfield ''pl_name'' (datos ! 0) = Some (JStr ''Kepler-442 b'')
         \<and> (\<exists>y. jfield ''pl_masse'' (datos ! 0) = Some (JNum y) \<and> \<bar>y - 1\<bar> \<le> 1 / 10 ^ 10))"
proof -
  let ?F = "fila_masa (CFloat 1)"
  have v: "servicio_vacio ''q'' = Rows []"
    by (simp add: servicio_vacio_def)
  have d: "servicio_de [?F] ''q'' = Rows [?F] \<and> [?F] \<noteq> []
             \<and> (\<forall>r \<in> set [?F]. distinct (map fst r))"
    by (simp add: servicio_de_def fila_masa_def)
  have c: "map_of ([?F] ! 0) ''columna'' = None"
    "map_of ([?F] ! 0) ''pl_eqt'' = Some Missing"
    "map_of ([?F] ! 0) ''disc_year'' = Some (CInt 2015)"
    "map_of ([?F] ! 0) ''pl_name'' = Some (CStr ''Kepler-442 b'')"
    "map_of ([?F] ! 0) ''pl_masse'' = Some (CFloat 1) \<and> \<bar>1::real\<bar> \<le> 10 ^ 15"
    by (simp_all add: fila_masa_def)
  note t = ejecutar_query_segura_normalizes
      [where svc = servicio_vacio and query = "''q''" and descripcion = "''consulta''"
         and svc' = "servicio_de [?F]" and query' = "''q''" and descripcion' = "''consulta''"
         and df = "[?F]"]
  from t d obtain datos where
      e: "ejecutar_query_segura (servicio_de [?F]) ''q'' ''consulta'' =
           (JObj [(''status'', JStr ''success''),
                  (''count'', JInt (int (length [?F]))),
                  (''data'', JArr datos)], [''q''])"
      and l: "length datos = length [?F]"
      and a: "\<forall>i < length [?F]. \<forall>k.
               (map_of ([?F] ! i) k = None \<longrightarrow> jfield k (datos ! i) = None)
             \<and> (map_of ([?F] ! i) k = Some Missing \<longrightarrow> jfield k (datos ! i) = Some JNull)
             \<and> (\<forall>n. map_of ([?F] ! i) k = Some (CInt n) \<longrightarrow>
                    jfield k (datos ! i) = Some (JInt n))
             \<and> (\<forall>s. map_of ([?F] ! i) k = Some (CStr s) \<longrightarrow>
                    jfield k (datos ! i) = Some (JStr s))
             \<and> (\<forall>x. map_of ([?F] ! i) k = Some (CFloat x) \<and> \<bar>x\<bar> \<le> 10 ^ 15 \<longrightarrow>
                    (\<exists>y. jfield k (datos ! i) = Some (JNum y) \<and> \<bar>y - x\<bar> \<le> 1 / 10 ^ 10))"
    by blast
  have z: "0 < length [?F]" by simp
  have "jfield ''columna'' (datos ! 0) = None"
    and "jfield ''pl_eqt'' (datos ! 0) = Some JNull"
    and "jfield ''disc_year'' (datos ! 0) = Some (JInt 2015)"
    and "jfield ''pl_name'' (datos ! 0) = Some (JStr ''Kepler-442 b'')"
    and "\<exists>y. jfield ''pl_masse'' (datos ! 0) = Some (JNum y) \<and> \<bar>y - 1\<bar> \<le> 1 / 10 ^ 10"
    using a z c by blast+
  moreover have "ejecutar_query_segura (servicio_de [?F]) ''q'' ''consulta'' =
           (JObj [(''status'', JStr ''success''),
                  (''count'', JInt 1),
                  (''data'', JArr datos)], [''q''])"
    and "length datos = 1"
    using e l by simp_all
  moreover have "ejecutar_query_segura servicio_vacio ''q'' ''consulta'' =
        (JObj [(''status'', JStr ''empty''),
               (''message'', JStr (''No se encontraron resultados para '' @ ''consulta'')),
               (''data'', JArr [])], [''q''])"
    and "contains ''consulta'' (''No se encontraron resultados para '' @ ''consulta'')"
    using t v by blast+
  ultimately show ?thesis by blast
qed

end
